theory Spec2Isabelle
  imports Main "HOL-Library.Word"
begin

section \<open>Asynchronous SMTP dispatch (src/bnetd/smtp.cpp)\<close>

text \<open>
  A shallow embedding of \<^verbatim>\<open>smtp.cpp\<close>. The file-level statics become the fields of
  one state record; the transport layer (libcurl), the heap and the logging sink are
  made explicit in the same record, so that every call the code makes is visible as an
  update of that state. What the transport layer decides on its own (whether an
  allocation succeeds, which transfers it reports as finished, the time stamp text) is
  passed in as an argument.
\<close>

subsection \<open>Basic types\<close>

text \<open>\<^verbatim>\<open>std::size_t\<close> and \<^verbatim>\<open>unsigned int\<close> on the 64-bit targets the server is built for.\<close>

type_synonym size_t = "64 word"
type_synonym uint = "32 word"

text \<open>A pointer is \<open>None\<close> (\<^verbatim>\<open>nullptr\<close>) or the address of a live or dead object.\<close>

type_synonym ptr = "nat option"

text \<open>A \<^verbatim>\<open>const char*\<close> argument is \<open>None\<close> (\<^verbatim>\<open>nullptr\<close>) or the text before its terminator.\<close>

type_synonym c_string = "string option"

definition NUL :: char where
  "NUL = CHR 0x00"

definition CRLF :: string where
  "CRLF = [CHR 0x0D, CHR 0x0A]"

definition DQUOTE :: string where
  "DQUOTE = [CHR 0x22]"

text \<open>\<^verbatim>\<open>std::string::c_str()\<close>: the characters of the string followed by the terminator.\<close>

definition c_str :: "string \<Rightarrow> string" where
  "c_str s = s @ [NUL]"

text \<open>
  \<^verbatim>\<open>std::memcpy(dst, src, n)\<close> overwrites the first \<open>n\<close> bytes of \<open>dst\<close> with the first
  \<open>n\<close> bytes of \<open>src\<close>. It is defined in C only for \<open>n \<le> length src\<close> and
  \<open>n \<le> length dst\<close>; the theorems below carry both bounds.
\<close>

definition memcpy :: "string \<Rightarrow> string \<Rightarrow> nat \<Rightarrow> string" where
  "memcpy dst src n = take n src @ drop n dst"

text \<open>
  \<^verbatim>\<open>std::snprintf(buf, n, ...)\<close> stores at most \<open>n - 1\<close> characters of the formatted text
  and a terminator; the C string held by \<open>buf\<close> afterwards is that prefix.
\<close>

definition snprintf :: "nat \<Rightarrow> string \<Rightarrow> string" where
  "snprintf n formatted = take (n - 1) formatted"

text \<open>
  \<^verbatim>\<open>fmt::format\<close>: every replacement field \<^verbatim>\<open>{...}\<close> of the format string is replaced by
  the rendering of the next argument, everything else is copied. The arguments are
  given already rendered. The escapes \<^verbatim>\<open>{{\<close> and \<^verbatim>\<open>}}\<close> do not occur in this file's
  format strings and are not modelled. The flag says whether the scan is inside a
  replacement field.
\<close>

fun fmt_scan :: "bool \<Rightarrow> string \<Rightarrow> string list \<Rightarrow> string" where
  "fmt_scan inside [] args = []"
| "fmt_scan False (c # cs) args =
     (if c = CHR ''{''
      then (case args of
              [] \<Rightarrow> fmt_scan True cs []
            | a # as \<Rightarrow> a @ fmt_scan True cs as)
      else c # fmt_scan False cs args)"
| "fmt_scan True (c # cs) args =
     (if c = CHR ''}'' then fmt_scan False cs args else fmt_scan True cs args)"

definition fmt_format :: "string \<Rightarrow> string list \<Rightarrow> string" where
  "fmt_format f args = fmt_scan False f args"

subsection \<open>The streaming state and the read callback\<close>

record read_callback_message =
  message :: string
  bytes_remaining :: size_t

text \<open>
  \<^verbatim>\<open>read_callback\<close> (lines 119-133). The result is the return value, the buffer after
  the call and the streaming state after the call. The copy always starts at
  \<^verbatim>\<open>rcbmessage->message.c_str()\<close>, the first byte of the message.
\<close>

definition read_callback ::
  "string \<Rightarrow> size_t \<Rightarrow> size_t \<Rightarrow> read_callback_message
    \<Rightarrow> size_t \<times> string \<times> read_callback_message" where
  "read_callback buffer sz nitems rcbmessage =
     (let buffer_size = sz * nitems;
          copy_size = (if bytes_remaining rcbmessage \<le> buffer_size
                       then bytes_remaining rcbmessage else buffer_size)
      in if copy_size > 0
         then (copy_size,
               memcpy buffer (c_str (message rcbmessage)) (unat copy_size),
               rcbmessage\<lparr>bytes_remaining := bytes_remaining rcbmessage - copy_size\<rparr>)
         else (copy_size, buffer, rcbmessage))"

text \<open>The streaming state that \<^verbatim>\<open>smtp_send_email\<close> builds (lines 296-298).\<close>

definition new_read_callback_message :: "string \<Rightarrow> read_callback_message" where
  "new_read_callback_message msg =
     \<lparr>message = msg, bytes_remaining = of_nat (length msg) + 1\<rparr>"

text \<open>
  The transport layer's side of an upload: it calls the read callback with one fresh
  buffer of \<open>sz * nitems\<close> bytes per entry of the list, sends the bytes the callback
  reports, and stops at the first call that returns 0. The result is the list of
  chunks sent, whether the end of the stream was signalled, and the streaming state.
\<close>

fun transport_reads ::
  "(size_t \<times> size_t) list \<Rightarrow> read_callback_message
    \<Rightarrow> string list \<times> bool \<times> read_callback_message" where
  "transport_reads [] m = ([], False, m)"
| "transport_reads ((sz, nitems) # caps) m =
     (case read_callback (replicate (unat (sz * nitems)) NUL) sz nitems m of
        (ret, buffer', m') \<Rightarrow>
          if ret = 0 then ([], True, m')
          else (case transport_reads caps m' of
                  (chunks, eos, m'') \<Rightarrow> (take (unat ret) buffer' # chunks, eos, m'')))"

subsection \<open>The transport layer, the heap and the log\<close>

text \<open>The options \<^verbatim>\<open>smtp_send_email\<close> sets on a transfer handle, and their values.\<close>

datatype curlopt =
    CURLOPT_USE_SSL | CURLOPT_CAINFO | CURLOPT_URL | CURLOPT_PORT
  | CURLOPT_USERNAME | CURLOPT_PASSWORD | CURLOPT_MAIL_FROM | CURLOPT_MAIL_RCPT
  | CURLOPT_PRIVATE | CURLOPT_READFUNCTION | CURLOPT_READDATA | CURLOPT_UPLOAD

datatype optval = Long int | Str string | Pointer ptr | Function_read_callback

text \<open>libcurl's value of \<^verbatim>\<open>CURLUSESSL_ALL\<close> and this file's \<^verbatim>\<open>SMTP_TIMEOUT_DEFAULT\<close>.\<close>

definition CURLUSESSL_ALL :: int where
  "CURLUSESSL_ALL = 3"

definition SMTP_TIMEOUT_DEFAULT :: int where
  "SMTP_TIMEOUT_DEFAULT = 1000"

datatype CURLMSG = CURLMSG_NONE | CURLMSG_DONE | CURLMSG_LAST

text \<open>
  Every call into the transport layer or the thread library, and every store to the
  initialization flag, is recorded in order.
\<close>

datatype call =
    Store_is_curl_initialized bool
  | Thread_start
  | Thread_join
  | Curl_global_init
  | Curl_global_cleanup
  | Curl_multi_init
  | Curl_multi_cleanup ptr
  | Curl_multi_timeout ptr
  | Curl_multi_poll ptr int
  | Curl_multi_perform ptr
  | Curl_multi_info_read ptr
  | Curl_multi_add_handle ptr ptr
  | Curl_multi_remove_handle ptr ptr
  | Curl_easy_init
  | Curl_easy_setopt ptr curlopt
  | Curl_easy_getinfo_private ptr
  | Curl_easy_cleanup ptr
  | Curl_slist_append
  | Curl_slist_free_all ptr

datatype eventlog_level = eventlog_level_trace | eventlog_level_debug | eventlog_level_error

datatype log_arg = Arg_uint uint | Arg_pointer ptr | Arg_code int

text \<open>What does not return a value to its caller.\<close>

datatype error =
    Never_returns   \<comment> \<open>the call blocks forever\<close>
  | System_error    \<comment> \<open>\<^verbatim>\<open>std::system_error\<close>: joining a thread that is not joinable\<close>
  | Terminate       \<comment> \<open>\<^verbatim>\<open>std::terminate\<close>: assigning to a thread that is joinable\<close>

text \<open>
  The state: the statics of lines 45-52, then what they point into. A pool slot is the
  multiplexer pointer and whether its mutex is held. \<open>smtp_thread\<close> says whether the
  thread object is joinable. The transport layer's objects are kept by address:
  a multiplexer with the transfers attached to it, a transfer handle with the options
  set on it, a recipient list with its entries; \<open>rcb_heap\<close> holds the streaming states
  obtained from \<^verbatim>\<open>xmalloc\<close>. An address is live exactly while it is in the map.
\<close>

record smtp_state =
  is_curl_initialized :: bool
  smtp_thread :: bool
  handles_and_mutexes :: "(ptr \<times> bool) list"
  smtp_ca_cert_store :: string
  smtp_server_url :: string
  smtp_port :: int
  smtp_username :: string
  smtp_password :: string
  next_address :: nat
  curl_global :: bool
  multi_handles :: "nat \<rightharpoonup> nat list"
  easy_handles :: "nat \<rightharpoonup> (curlopt \<rightharpoonup> optval)"
  slists :: "nat \<rightharpoonup> string list"
  rcb_heap :: "nat \<rightharpoonup> read_callback_message"
  calls :: "call list"
  eventlog_sink :: "(eventlog_level \<times> string \<times> string \<times> log_arg list) list"

text \<open>The state at program start: zero-initialised statics, nothing allocated.\<close>

definition initial_state :: smtp_state where
  "initial_state =
     \<lparr>is_curl_initialized = False, smtp_thread = False,
      handles_and_mutexes = [(None, False), (None, False)],
      smtp_ca_cert_store = [], smtp_server_url = [], smtp_port = 0,
      smtp_username = [], smtp_password = [],
      next_address = 100, curl_global = False,
      multi_handles = Map.empty, easy_handles = Map.empty, slists = Map.empty,
      rcb_heap = Map.empty, calls = [], eventlog_sink = []\<rparr>"

text \<open>The configuration snapshot of a state.\<close>

definition config_of :: "smtp_state \<Rightarrow> string \<times> string \<times> int \<times> string \<times> string" where
  "config_of s =
     (smtp_ca_cert_store s, smtp_server_url s, smtp_port s, smtp_username s, smtp_password s)"

definition record_call :: "call \<Rightarrow> smtp_state \<Rightarrow> smtp_state" where
  "record_call c s = s\<lparr>calls := calls s @ [c]\<rparr>"

text \<open>
  Modelled from the spec: \<^verbatim>\<open>eventlog\<close> (common/eventlog.h) is not under src. The spec
  describes logging as a one-way sink accepting (severity, origin, formatted message)
  whose return value is never consulted. The message is kept as its format string and
  arguments.
\<close>

definition eventlog ::
  "eventlog_level \<Rightarrow> string \<Rightarrow> string \<Rightarrow> log_arg list \<Rightarrow> smtp_state \<Rightarrow> smtp_state" where
  "eventlog level func fmt args s = s\<lparr>eventlog_sink := eventlog_sink s @ [(level, func, fmt, args)]\<rparr>"

text \<open>
  Modelled from the spec: \<^verbatim>\<open>xmalloc\<close> (common/xalloc.h) is not under src. The spec says
  that a submission allocates a small heap object for the streaming state; the
  allocation yields a fresh address.
\<close>

definition xmalloc :: "smtp_state \<Rightarrow> nat \<times> smtp_state" where
  "xmalloc s = (next_address s, s\<lparr>next_address := next_address s + 1\<rparr>)"

text \<open>
  The transport layer's operations. An allocating call takes a flag saying whether the
  allocation succeeds and returns a fresh address or \<^verbatim>\<open>nullptr\<close>.
\<close>

definition curl_multi_init :: "bool \<Rightarrow> smtp_state \<Rightarrow> ptr \<times> smtp_state" where
  "curl_multi_init ok s =
     (if ok
      then (Some (next_address s),
            record_call Curl_multi_init
              (s\<lparr>next_address := next_address s + 1,
                 multi_handles := (multi_handles s)(next_address s \<mapsto> [])\<rparr>))
      else (None, record_call Curl_multi_init s))"

definition curl_multi_cleanup :: "ptr \<Rightarrow> smtp_state \<Rightarrow> smtp_state" where
  "curl_multi_cleanup h s =
     record_call (Curl_multi_cleanup h)
       (case h of None \<Rightarrow> s
        | Some a \<Rightarrow> s\<lparr>multi_handles := (multi_handles s)(a := None)\<rparr>)"

definition curl_global_init :: "int \<Rightarrow> smtp_state \<Rightarrow> int \<times> smtp_state" where
  "curl_global_init code s =
     (code, record_call Curl_global_init (if code = 0 then s\<lparr>curl_global := True\<rparr> else s))"

definition curl_global_cleanup :: "smtp_state \<Rightarrow> smtp_state" where
  "curl_global_cleanup s = record_call Curl_global_cleanup (s\<lparr>curl_global := False\<rparr>)"

definition curl_easy_init :: "bool \<Rightarrow> smtp_state \<Rightarrow> ptr \<times> smtp_state" where
  "curl_easy_init ok s =
     (if ok
      then (Some (next_address s),
            record_call Curl_easy_init
              (s\<lparr>next_address := next_address s + 1,
                 easy_handles := (easy_handles s)(next_address s \<mapsto> Map.empty)\<rparr>))
      else (None, record_call Curl_easy_init s))"

definition curl_easy_setopt :: "ptr \<Rightarrow> curlopt \<Rightarrow> optval \<Rightarrow> smtp_state \<Rightarrow> smtp_state" where
  "curl_easy_setopt curl opt v s =
     record_call (Curl_easy_setopt curl opt)
       (case curl of None \<Rightarrow> s
        | Some a \<Rightarrow>
            (case easy_handles s a of None \<Rightarrow> s
             | Some opts \<Rightarrow> s\<lparr>easy_handles := (easy_handles s)(a \<mapsto> opts(opt \<mapsto> v))\<rparr>))"

text \<open>
  \<^verbatim>\<open>curl_easy_getinfo(curl, CURLINFO_PRIVATE, &p)\<close> stores the handle's private pointer
  in \<open>p\<close>; the variable keeps its old value when the handle has none.
\<close>

definition curl_easy_getinfo_private :: "ptr \<Rightarrow> ptr \<Rightarrow> smtp_state \<Rightarrow> ptr \<times> smtp_state" where
  "curl_easy_getinfo_private curl old s =
     (case curl of None \<Rightarrow> old
      | Some a \<Rightarrow>
          (case easy_handles s a of None \<Rightarrow> old
           | Some opts \<Rightarrow>
               (case opts CURLOPT_PRIVATE of Some (Pointer p) \<Rightarrow> p | _ \<Rightarrow> old)),
      record_call (Curl_easy_getinfo_private curl) s)"

definition curl_easy_cleanup :: "ptr \<Rightarrow> smtp_state \<Rightarrow> smtp_state" where
  "curl_easy_cleanup curl s =
     record_call (Curl_easy_cleanup curl)
       (case curl of None \<Rightarrow> s
        | Some a \<Rightarrow> s\<lparr>easy_handles := (easy_handles s)(a := None)\<rparr>)"

text \<open>\<^verbatim>\<open>curl_slist_append(nullptr, text)\<close>: a new one-entry list, or \<^verbatim>\<open>nullptr\<close>.\<close>

definition curl_slist_append :: "bool \<Rightarrow> string \<Rightarrow> smtp_state \<Rightarrow> ptr \<times> smtp_state" where
  "curl_slist_append ok entry s =
     (if ok
      then (Some (next_address s),
            record_call Curl_slist_append
              (s\<lparr>next_address := next_address s + 1,
                 slists := (slists s)(next_address s \<mapsto> [entry])\<rparr>))
      else (None, record_call Curl_slist_append s))"

definition curl_slist_free_all :: "ptr \<Rightarrow> smtp_state \<Rightarrow> smtp_state" where
  "curl_slist_free_all l s =
     record_call (Curl_slist_free_all l)
       (case l of None \<Rightarrow> s
        | Some a \<Rightarrow> s\<lparr>slists := (slists s)(a := None)\<rparr>)"

text \<open>
  \<^verbatim>\<open>curl_multi_add_handle\<close> returns the code the transport layer decides on; the
  transfer is attached when the code is 0.
\<close>

definition curl_multi_add_handle :: "int \<Rightarrow> ptr \<Rightarrow> ptr \<Rightarrow> smtp_state \<Rightarrow> int \<times> smtp_state" where
  "curl_multi_add_handle code multi curl s =
     (code,
      record_call (Curl_multi_add_handle multi curl)
        (case (multi, curl) of
           (Some m, Some c) \<Rightarrow>
             (case multi_handles s m of
                Some attached \<Rightarrow>
                  if code = 0 then s\<lparr>multi_handles := (multi_handles s)(m \<mapsto> attached @ [c])\<rparr>
                  else s
              | None \<Rightarrow> s)
         | _ \<Rightarrow> s))"

definition curl_multi_remove_handle :: "ptr \<Rightarrow> ptr \<Rightarrow> smtp_state \<Rightarrow> smtp_state" where
  "curl_multi_remove_handle multi curl s =
     record_call (Curl_multi_remove_handle multi curl)
       (case (multi, curl) of
          (Some m, Some c) \<Rightarrow>
            (case multi_handles s m of
               Some attached \<Rightarrow> s\<lparr>multi_handles := (multi_handles s)(m \<mapsto> removeAll c attached)\<rparr>
             | None \<Rightarrow> s)
        | _ \<Rightarrow> s)"

text \<open>The mutex of slot \<open>i\<close>.\<close>

definition set_mutex :: "nat \<Rightarrow> bool \<Rightarrow> smtp_state \<Rightarrow> smtp_state" where
  "set_mutex i held s =
     s\<lparr>handles_and_mutexes :=
         (handles_and_mutexes s)[i := (fst (handles_and_mutexes s ! i), held)]\<rparr>"

subsection \<open>Configuration and lifecycle\<close>

text \<open>\<^verbatim>\<open>smtp_config\<close> (lines 139-179).\<close>

definition smtp_config ::
  "c_string \<Rightarrow> c_string \<Rightarrow> uint \<Rightarrow> c_string \<Rightarrow> c_string \<Rightarrow> smtp_state \<Rightarrow> bool \<times> smtp_state" where
  "smtp_config prefs_smtp_ca_cert_store prefs_smtp_server_url prefs_smtp_port
       prefs_smtp_username prefs_smtp_password s =
     (case prefs_smtp_ca_cert_store of
        None \<Rightarrow>
          (False, eventlog eventlog_level_error ''smtp_config''
                    ''Received NULL prefs_smtp_ca_cert_store'' [] s)
      | Some ca \<Rightarrow>
     (case prefs_smtp_server_url of
        None \<Rightarrow>
          (False, eventlog eventlog_level_error ''smtp_config''
                    ''Received NULL prefs_smtp_server_url'' [] s)
      | Some host \<Rightarrow>
     (if prefs_smtp_port > 65535
      then (False, eventlog eventlog_level_error ''smtp_config''
                     ''Received out-of-range port number ({})'' [Arg_uint prefs_smtp_port] s)
      else
     (case prefs_smtp_username of
        None \<Rightarrow>
          (False, eventlog eventlog_level_error ''smtp_config''
                    ''Received NULL prefs_smtp_username'' [] s)
      | Some username \<Rightarrow>
     (case prefs_smtp_password of
        None \<Rightarrow>
          (False, eventlog eventlog_level_error ''smtp_config''
                    ''Received NULL prefs_smtp_password'' [] s)
      | Some password \<Rightarrow>
          (True,
           s\<lparr>smtp_ca_cert_store := ca,
             smtp_server_url := snprintf 512 (''smtps://'' @ host),
             smtp_port := uint prefs_smtp_port,
             smtp_username := username,
             smtp_password := password\<rparr>))))))"

text \<open>What the transport layer decides during \<^verbatim>\<open>smtp_init\<close>.\<close>

record init_env =
  multi_init_ok :: "nat \<Rightarrow> bool"   \<comment> \<open>whether \<^verbatim>\<open>curl_multi_init\<close> succeeds for the slot\<close>
  global_init_code :: int           \<comment> \<open>the return value of \<^verbatim>\<open>curl_global_init\<close>\<close>

text \<open>The loop of lines 202-211 over the slots, leaving at the first failed allocation.\<close>

fun init_slots :: "(nat \<Rightarrow> bool) \<Rightarrow> nat list \<Rightarrow> smtp_state \<Rightarrow> bool \<times> smtp_state" where
  "init_slots ok [] s = (True, s)"
| "init_slots ok (i # rest) s =
     (case curl_multi_init (ok i) s of
        (h, s1) \<Rightarrow>
          (let s2 = s1\<lparr>handles_and_mutexes :=
                         (handles_and_mutexes s1)[i := (h, snd (handles_and_mutexes s1 ! i))]\<rparr>
           in if h = None
              then (False, eventlog eventlog_level_error ''smtp_init''
                             ''Failed to initialize curl multi handle'' [] s2)
              else init_slots ok rest s2))"

text \<open>\<^verbatim>\<open>smtp_thread = std::thread(smtp_consumer)\<close> (line 219).\<close>

definition thread_start :: "smtp_state \<Rightarrow> error + smtp_state" where
  "thread_start s =
     (if smtp_thread s then Inl Terminate
      else Inr (record_call Thread_start (s\<lparr>smtp_thread := True\<rparr>)))"

text \<open>\<^verbatim>\<open>smtp_init\<close> (lines 188-224).\<close>

definition smtp_init ::
  "init_env \<Rightarrow> c_string \<Rightarrow> c_string \<Rightarrow> uint \<Rightarrow> c_string \<Rightarrow> c_string \<Rightarrow> smtp_state
    \<Rightarrow> error + (bool \<times> smtp_state)" where
  "smtp_init env prefs_smtp_ca_cert_store prefs_smtp_server_url prefs_smtp_port
       prefs_smtp_username prefs_smtp_password s =
     (if is_curl_initialized s
      then Inr (False, eventlog eventlog_level_error ''smtp_init''
                         ''libcurl has already been initialized'' [] s)
      else
        (case smtp_config prefs_smtp_ca_cert_store prefs_smtp_server_url prefs_smtp_port
                prefs_smtp_username prefs_smtp_password s of
           (False, s1) \<Rightarrow>
             Inr (False, eventlog eventlog_level_error ''smtp_init'' ''Failed to set SMTP data'' [] s1)
         | (True, s1) \<Rightarrow>
             (case init_slots (multi_init_ok env) [0..<length (handles_and_mutexes s1)] s1 of
                (False, s2) \<Rightarrow> Inr (False, s2)
              | (True, s2) \<Rightarrow>
                  (case curl_global_init (global_init_code env) s2 of
                     (code, s3) \<Rightarrow>
                       if code \<noteq> 0
                       then Inr (False, eventlog eventlog_level_error ''smtp_init''
                                          ''Failed to initialize curl global context'' [] s3)
                       else
                         (case thread_start s3 of
                            Inl e \<Rightarrow> Inl e
                          | Inr s4 \<Rightarrow>
                              Inr (True,
                                   record_call (Store_is_curl_initialized True)
                                     (s4\<lparr>is_curl_initialized := True\<rparr>)))))))"

text \<open>\<^verbatim>\<open>smtp_reconfig\<close> (lines 226-229).\<close>

definition smtp_reconfig ::
  "c_string \<Rightarrow> c_string \<Rightarrow> uint \<Rightarrow> c_string \<Rightarrow> c_string \<Rightarrow> smtp_state \<Rightarrow> bool \<times> smtp_state" where
  "smtp_reconfig prefs_smtp_ca_cert_store prefs_smtp_server_url prefs_smtp_port
       prefs_smtp_username prefs_smtp_password s =
     smtp_config prefs_smtp_ca_cert_store prefs_smtp_server_url prefs_smtp_port
       prefs_smtp_username prefs_smtp_password s"

subsection \<open>The poller\<close>

text \<open>
  What the transport layer reports to one visit of a slot: the timeout that
  \<^verbatim>\<open>curl_multi_timeout\<close> leaves in the variable, and the messages that successive calls
  of \<^verbatim>\<open>curl_multi_info_read\<close> return before it returns \<^verbatim>\<open>nullptr\<close>.
\<close>

record slot_env =
  reported_timeout :: int
  finished :: "(CURLMSG \<times> ptr) list"

text \<open>
  The do-while loop of lines 89-110. Each round reads one message; the round that
  reads \<^verbatim>\<open>nullptr\<close> is the last. The counter \<^verbatim>\<open>running_handles\<close> is never read and is
  left out.
\<close>

fun drain_completions :: "ptr \<Rightarrow> (CURLMSG \<times> ptr) list \<Rightarrow> smtp_state \<Rightarrow> smtp_state" where
  "drain_completions curl_multi_handle [] s =
     record_call (Curl_multi_info_read curl_multi_handle) s"
| "drain_completions curl_multi_handle ((msg, curl) # rest) s =
     (let s1 = record_call (Curl_multi_info_read curl_multi_handle) s
      in if msg = CURLMSG_DONE
         then
           (let s2 = curl_multi_remove_handle curl_multi_handle curl s1;
                (recipient, s3) = curl_easy_getinfo_private curl None s2;
                s4 = (if recipient \<noteq> None then curl_slist_free_all recipient s3 else s3);
                s5 = curl_easy_cleanup curl s4
            in drain_completions curl_multi_handle rest s5)
         else drain_completions curl_multi_handle rest s1)"

text \<open>The body of the loop over the slots (lines 66-113), for slot \<open>i\<close>.\<close>

definition smtp_consumer_slot :: "slot_env \<Rightarrow> nat \<Rightarrow> smtp_state \<Rightarrow> smtp_state" where
  "smtp_consumer_slot env i s =
     (case handles_and_mutexes s ! i of
        (curl_multi_handle, held) \<Rightarrow>
          if held then s
          else
            (let s1 = set_mutex i True s;
                 s2 = record_call (Curl_multi_timeout curl_multi_handle) s1;
                 timeout = (if reported_timeout env = - 1 then SMTP_TIMEOUT_DEFAULT
                            else reported_timeout env);
                 s3 = record_call (Curl_multi_poll curl_multi_handle timeout) s2;
                 s4 = record_call (Curl_multi_perform curl_multi_handle) s3;
                 s5 = drain_completions curl_multi_handle (finished env) s4
             in set_mutex i False s5))"

text \<open>One pass of the loop of line 64 over all slots.\<close>

definition smtp_consumer_pass :: "(nat \<Rightarrow> slot_env) \<Rightarrow> smtp_state \<Rightarrow> smtp_state" where
  "smtp_consumer_pass env s =
     fold (\<lambda>i. smtp_consumer_slot (env i) i) [0..<length (handles_and_mutexes s)] s"

text \<open>
  \<^verbatim>\<open>smtp_consumer\<close> (lines 60-116), run on its own: pass \<open>k\<close> gets the reports \<open>env k\<close>.
  The loop ends when it finds the initialization flag false.
\<close>

partial_function (option) smtp_consumer ::
  "(nat \<Rightarrow> nat \<Rightarrow> slot_env) \<Rightarrow> nat \<Rightarrow> smtp_state \<Rightarrow> smtp_state option" where
  "smtp_consumer env k s =
     (if is_curl_initialized s
      then smtp_consumer env (Suc k) (smtp_consumer_pass (env k) s)
      else Some s)"

text \<open>
  \<^verbatim>\<open>smtp_thread.join()\<close> (line 238) returns once the poller's call of \<^verbatim>\<open>smtp_consumer\<close> has
  returned; the passes the poller still makes before it leaves its loop happen here.
\<close>

definition thread_join :: "(nat \<Rightarrow> nat \<Rightarrow> slot_env) \<Rightarrow> smtp_state \<Rightarrow> error + smtp_state" where
  "thread_join env s =
     (if \<not> smtp_thread s then Inl System_error
      else
        (case smtp_consumer env 0 s of
           None \<Rightarrow> Inl Never_returns
         | Some s' \<Rightarrow> Inr (record_call Thread_join (s'\<lparr>smtp_thread := False\<rparr>))))"

text \<open>\<^verbatim>\<open>smtp_cleanup\<close> (lines 231-250).\<close>

definition smtp_cleanup :: "(nat \<Rightarrow> nat \<Rightarrow> slot_env) \<Rightarrow> smtp_state \<Rightarrow> error + smtp_state" where
  "smtp_cleanup env s =
     (if is_curl_initialized s
      then
        (let s1 = record_call (Store_is_curl_initialized False) (s\<lparr>is_curl_initialized := False\<rparr>)
         in case thread_join env s1 of
              Inl e \<Rightarrow> Inl e
            | Inr s2 \<Rightarrow>
                Inr (curl_global_cleanup
                       (fold (\<lambda>slot. curl_multi_cleanup (fst slot)) (handles_and_mutexes s2) s2)))
      else Inr s)"

subsection \<open>Submission\<close>

text \<open>The format string of line 294.\<close>

definition header_format :: string where
  "header_format =
     ''MIME-Version: 1.0'' @ CRLF @
     ''Content-Type: text/plain; charset='' @ DQUOTE @ ''UTF-8'' @ DQUOTE @ CRLF @
     ''Date: {:%a, %d %b %Y %T %z}'' @ CRLF @
     ''From: {} <{}>'' @ CRLF @
     ''To: <{}>'' @ CRLF @
     ''Subject: {}'' @ CRLF @ CRLF"

text \<open>
  \<^verbatim>\<open>message.insert(0, fmt::format(...))\<close> (line 294), with \<open>msg\<close> for the parameter
  \<^verbatim>\<open>message\<close>. \<open>date\<close> is the rendering of the local time under the field's format
  \<^verbatim>\<open>%a, %d %b %Y %T %z\<close>.
\<close>

definition compose_message ::
  "string \<Rightarrow> string \<Rightarrow> string \<Rightarrow> string \<Rightarrow> string \<Rightarrow> string \<Rightarrow> string" where
  "compose_message date to_address from_address from_name subject msg =
     fmt_format header_format [date, from_name, from_address, to_address, subject] @ msg"

text \<open>What the transport layer and the clock decide during one \<^verbatim>\<open>smtp_send_email\<close>.\<close>

record send_env =
  easy_init_ok :: bool       \<comment> \<open>whether \<^verbatim>\<open>curl_easy_init\<close> succeeds\<close>
  slist_append_ok :: bool    \<comment> \<open>whether \<^verbatim>\<open>curl_slist_append\<close> succeeds\<close>
  multi_add_code :: int      \<comment> \<open>the return value of \<^verbatim>\<open>curl_multi_add_handle\<close>\<close>
  date_text :: string        \<comment> \<open>the rendering of the local time\<close>

text \<open>
  The loop of lines 306-329 over the slots: the first slot whose mutex can be taken gets
  the transfer and the function returns; \<open>None\<close> when every mutex was held.
\<close>

fun add_to_first_free :: "int \<Rightarrow> ptr \<Rightarrow> nat list \<Rightarrow> smtp_state \<Rightarrow> smtp_state option" where
  "add_to_first_free code curl [] s = None"
| "add_to_first_free code curl (i # rest) s =
     (case handles_and_mutexes s ! i of
        (curl_multi_handle, held) \<Rightarrow>
          if held then add_to_first_free code curl rest s
          else
            (let s1 = set_mutex i True s;
                 (c, s2) = curl_multi_add_handle code curl_multi_handle curl s1;
                 s3 = (if c = 0
                       then eventlog eventlog_level_trace ''smtp_send_email''
                              ''Added handle to CURL multi handle ({})''
                              [Arg_pointer curl_multi_handle] s2
                       else eventlog eventlog_level_error ''smtp_send_email''
                              ''Failed to add handle to CURL multi handle (CURLMcode: {})''
                              [Arg_code c] s2)
             in Some (set_mutex i False s3)))"

text \<open>The \<^verbatim>\<open>while (true)\<close> of line 304: it spins until some pass over the slots returns.\<close>

partial_function (option) acquire_slot :: "int \<Rightarrow> ptr \<Rightarrow> smtp_state \<Rightarrow> smtp_state option" where
  "acquire_slot code curl s =
     (case add_to_first_free code curl [0..<length (handles_and_mutexes s)] s of
        Some s' \<Rightarrow> Some s'
      | None \<Rightarrow> acquire_slot code curl s)"

text \<open>
  \<^verbatim>\<open>smtp_send_email\<close> (lines 252-332); \<open>None\<close> when the call never returns. The time stamp
  comes from a variable \<^verbatim>\<open>now\<close> that this file does not declare; its rendering is part of
  the environment. The streaming state is raw memory from \<^verbatim>\<open>xmalloc\<close> whose string member
  is assigned without having been constructed; the model takes the assignment to store
  the composed message. Nothing in the file frees that memory.
\<close>

definition smtp_send_email ::
  "send_env \<Rightarrow> string \<Rightarrow> string \<Rightarrow> string \<Rightarrow> string \<Rightarrow> string \<Rightarrow> smtp_state
    \<Rightarrow> smtp_state option" where
  "smtp_send_email env to_address from_address from_name subject msg s =
     (if \<not> is_curl_initialized s
      then Some (eventlog eventlog_level_debug ''smtp_send_email''
                   ''libcurl not initialized, returning without attempting to send email'' [] s)
      else
        (case curl_easy_init (easy_init_ok env) s of
           (curl, s1) \<Rightarrow>
             if curl = None
             then Some (eventlog eventlog_level_error ''smtp_send_email''
                          ''Failed to initialize CURL easy handle'' [] s1)
             else
               (let s2 = curl_easy_setopt curl CURLOPT_USE_SSL (Long CURLUSESSL_ALL) s1;
                    s3 = curl_easy_setopt curl CURLOPT_CAINFO (Str (smtp_ca_cert_store s2)) s2;
                    s4 = curl_easy_setopt curl CURLOPT_URL (Str (smtp_server_url s3)) s3;
                    s5 = curl_easy_setopt curl CURLOPT_PORT (Long (smtp_port s4)) s4;
                    s6 = curl_easy_setopt curl CURLOPT_USERNAME (Str (smtp_username s5)) s5;
                    s7 = curl_easy_setopt curl CURLOPT_PASSWORD (Str (smtp_password s6)) s6;
                    s8 = curl_easy_setopt curl CURLOPT_MAIL_FROM
                           (Str (fmt_format ''<{}>'' [from_address])) s7
                in case curl_slist_append (slist_append_ok env)
                          (fmt_format ''<{}>'' [to_address]) s8 of
                     (recipient_temp, s9) \<Rightarrow>
                       if recipient_temp = None
                       then Some (eventlog eventlog_level_error ''smtp_send_email''
                                    ''Failed to append recipient address to recipient list'' [] s9)
                       else
                         (let recipient = recipient_temp;
                              s10 = curl_easy_setopt curl CURLOPT_MAIL_RCPT (Pointer recipient) s9;
                              s11 = curl_easy_setopt curl CURLOPT_PRIVATE (Pointer recipient) s10;
                              s12 = curl_easy_setopt curl CURLOPT_READFUNCTION
                                      Function_read_callback s11;
                              composed = compose_message (date_text env) to_address from_address
                                           from_name subject msg;
                              (rcbmessage, s13) = xmalloc s12;
                              s14 = s13\<lparr>rcb_heap := (rcb_heap s13)
                                          (rcbmessage \<mapsto> new_read_callback_message composed)\<rparr>;
                              s15 = curl_easy_setopt curl CURLOPT_READDATA
                                      (Pointer (Some rcbmessage)) s14;
                              s16 = curl_easy_setopt curl CURLOPT_UPLOAD (Long 1) s15
                          in acquire_slot (multi_add_code env) curl s16))))"

subsection \<open>Argument validity and the scenario of the spec\<close>

text \<open>All four strings present and the port within range.\<close>

definition args_valid :: "c_string \<Rightarrow> c_string \<Rightarrow> uint \<Rightarrow> c_string \<Rightarrow> c_string \<Rightarrow> bool" where
  "args_valid ca url port user pw =
     (ca \<noteq> None \<and> url \<noteq> None \<and> port \<le> 65535 \<and> user \<noteq> None \<and> pw \<noteq> None)"

text \<open>
  The scenario of the spec's section 8: every allocation succeeds, and
  \<^verbatim>\<open>initialize("/ca.pem", "mail.example.com", 587, "user", "pw")\<close> is the first call of
  the process. \<open>running_state\<close> is the state it leaves.
\<close>

definition scenario_init_env :: init_env where
  "scenario_init_env = \<lparr>multi_init_ok = (\<lambda>i. True), global_init_code = 0\<rparr>"

definition running_state :: smtp_state where
  "running_state =
     (case smtp_init scenario_init_env (Some ''/ca.pem'') (Some ''mail.example.com'') 587
             (Some ''user'') (Some ''pw'') initial_state of
        Inr (r, s) \<Rightarrow> s
      | Inl e \<Rightarrow> initial_state)"

text \<open>A poller to whom the transport layer reports nothing.\<close>

definition idle_poller :: "nat \<Rightarrow> nat \<Rightarrow> slot_env" where
  "idle_poller k i = \<lparr>reported_timeout = - 1, finished = []\<rparr>"

text \<open>A submission in that scenario: every allocation succeeds and the transfer is attached.\<close>

definition scenario_send_env :: send_env where
  "scenario_send_env =
     \<lparr>easy_init_ok = True, slist_append_ok = True, multi_add_code = 0,
      date_text = ''Fri, 30 Oct 2026 12:00:00 +0000''\<rparr>"

text \<open>
  The composed message as the specification words it (section 4.2, step 3): the headers
  \<^verbatim>\<open>MIME-Version\<close>, \<^verbatim>\<open>Content-Type: text/plain; charset=UTF-8\<close>, \<^verbatim>\<open>Date\<close>, \<^verbatim>\<open>From\<close> with the
  display name in double quotes, \<^verbatim>\<open>To\<close>, \<^verbatim>\<open>Subject\<close>, a blank line, then the body. Where
  the specification leaves the text open (the value of \<^verbatim>\<open>MIME-Version\<close>, the angle brackets
  around the addresses, the line ends) it is taken from the code.
\<close>

definition spec_compose_message ::
  "string \<Rightarrow> string \<Rightarrow> string \<Rightarrow> string \<Rightarrow> string \<Rightarrow> string \<Rightarrow> string" where
  "spec_compose_message date to_address from_address from_name subject msg =
     ''MIME-Version: 1.0'' @ CRLF @
     ''Content-Type: text/plain; charset=UTF-8'' @ CRLF @
     ''Date: '' @ date @ CRLF @
     ''From: '' @ DQUOTE @ from_name @ DQUOTE @ '' <'' @ from_address @ ''>'' @ CRLF @
     ''To: <'' @ to_address @ ''>'' @ CRLF @
     ''Subject: '' @ subject @ CRLF @ CRLF @ msg"

text \<open>
  The rest of that scenario: two submissions right after initialization, one pass of the
  poller in which the transport layer reports both transfers finished on slot 0, then
  shutdown. The transfers are the handles 102 and 105.
\<close>

definition scenario_poller :: "nat \<Rightarrow> slot_env" where
  "scenario_poller i =
     (if i = 0
      then \<lparr>reported_timeout = - 1,
            finished = [(CURLMSG_DONE, Some 102), (CURLMSG_DONE, Some 105)]\<rparr>
      else \<lparr>reported_timeout = - 1, finished = []\<rparr>)"

definition scenario_sends :: "smtp_state option" where
  "scenario_sends =
     (case smtp_send_email scenario_send_env ''a@example.com'' ''noreply@example.com''
             ''Server'' ''Hello'' ''First'' running_state of
        None \<Rightarrow> None
      | Some s \<Rightarrow>
          smtp_send_email scenario_send_env ''b@example.com'' ''noreply@example.com''
            ''Server'' ''Hello'' ''Second'' s)"

definition scenario_end :: "error + smtp_state" where
  "scenario_end =
     (case scenario_sends of
        None \<Rightarrow> Inl Never_returns
      | Some s \<Rightarrow> smtp_cleanup idle_poller (smtp_consumer_pass scenario_poller s))"

subsection \<open>Reachable states\<close>

text \<open>
  The states the process can be in between two operations: from the initial state, by
  any call of \<^verbatim>\<open>smtp_init\<close>, \<^verbatim>\<open>smtp_reconfig\<close>, \<^verbatim>\<open>smtp_send_email\<close> or \<^verbatim>\<open>smtp_cleanup\<close> that
  returns and any pass of the poller, whatever the transport layer decides. In such a
  state both mutexes are free, and the poller thread is attached exactly when the
  initialization flag is set (\<open>state_inv\<close>, proved below for every reachable state).
\<close>

definition state_inv :: "smtp_state \<Rightarrow> bool" where
  "state_inv s =
     (map snd (handles_and_mutexes s) = [False, False]
      \<and> smtp_thread s = is_curl_initialized s)"

inductive reachable :: "smtp_state \<Rightarrow> bool" where
  start: "reachable initial_state"
| init: "reachable s \<Longrightarrow> smtp_init env ca url port user pw s = Inr (r, s') \<Longrightarrow> reachable s'"
| reconfig: "reachable s \<Longrightarrow> smtp_reconfig ca url port user pw s = (r, s') \<Longrightarrow> reachable s'"
| send: "reachable s \<Longrightarrow>
           smtp_send_email senv to_address from_address from_name subject msg s = Some s'
           \<Longrightarrow> reachable s'"
| poll: "reachable s \<Longrightarrow> reachable (smtp_consumer_pass penv s)"
| cleanup: "reachable s \<Longrightarrow> smtp_cleanup jenv s = Inr s' \<Longrightarrow> reachable s'"

subsection \<open>Theorems\<close>

lemma read_callback_word:
  assumes "read_callback buffer sz nitems m = (ret, buffer', m')"
  shows "ret = min (bytes_remaining m) (sz * nitems)"
    and "buffer' = memcpy buffer (c_str (message m)) (unat ret)"
    and "m' = m\<lparr>bytes_remaining := bytes_remaining m - ret\<rparr>"
  using assms
  by (auto simp: read_callback_def Let_def min_def memcpy_def word_gt_0 split: if_splits)

lemma unat_min_word: "unat (min (a::size_t) b) = min (unat a) (unat b)"
  by (simp add: min_def word_le_nat_alt)

text \<open>
  C7. One invocation of the read callback on a buffer of \<open>size * count\<close> bytes, with
  \<open>r\<close> bytes remaining, copies exactly \<open>min r (size * count)\<close> bytes into the front of
  the buffer, lowers \<open>bytes_remaining\<close> by exactly that amount (so it never passes
  below zero and never grows), and returns the number of bytes copied.
\<close>

theorem read_callback_copies_min:
  assumes rc: "read_callback buffer sz nitems m = (ret, buffer', m')"
      and cap: "length buffer = unat sz * unat nitems"
      and len: "length buffer < 2 ^ 64"
      and inv: "unat (bytes_remaining m) \<le> length (c_str (message m))"
  shows "unat ret = min (unat (bytes_remaining m)) (unat sz * unat nitems)
       \<and> buffer' = take (unat ret) (c_str (message m)) @ drop (unat ret) buffer
       \<and> length (take (unat ret) (c_str (message m))) = unat ret
       \<and> length buffer' = length buffer
       \<and> unat (bytes_remaining m') = unat (bytes_remaining m) - unat ret
       \<and> unat (bytes_remaining m') \<le> unat (bytes_remaining m)
       \<and> message m' = message m"
proof -
  have prod: "unat (sz * nitems) = unat sz * unat nitems"
    using cap len by (simp add: unat_word_ariths)
  note w = read_callback_word [OF rc]
  have r: "unat ret = min (unat (bytes_remaining m)) (unat sz * unat nitems)"
    by (simp add: w(1) unat_min_word prod)
  have le: "ret \<le> bytes_remaining m"
    by (simp add: w(1))
  have sub: "unat (bytes_remaining m') = unat (bytes_remaining m) - unat ret"
    by (simp add: w(3) unat_sub [OF le])
  have l1: "unat ret \<le> length (c_str (message m))"
    using r inv by simp
  have l2: "unat ret \<le> length buffer"
    using r cap by simp
  show ?thesis
    using r sub l1 l2 by (simp add: w(2) w(3) memcpy_def)
qed

theorem read_callback_copies_min_witness:
  "read_callback ''xxxx'' 1 4 \<lparr>message = ''ab'', bytes_remaining = 3\<rparr>
     = (3, ''ab'' @ [NUL, CHR ''x''], \<lparr>message = ''ab'', bytes_remaining = 0\<rparr>)
   \<and> length ''xxxx'' = unat (1::size_t) * unat (4::size_t)
   \<and> unat (bytes_remaining \<lparr>message = ''ab'', bytes_remaining = 3\<rparr>)
        \<le> length (c_str (message \<lparr>message = ''ab'', bytes_remaining = 3\<rparr>))
   \<and> unat (3::size_t) = min (unat (3::size_t)) (unat (1::size_t) * unat (4::size_t))
   \<and> unat (bytes_remaining \<lparr>message = ''ab'', bytes_remaining = 0\<rparr>) = 3 - unat (3::size_t)"
proof -
  have rc: "read_callback ''xxxx'' 1 4 \<lparr>message = ''ab'', bytes_remaining = 3\<rparr>
     = (3, ''ab'' @ [NUL, CHR ''x''], \<lparr>message = ''ab'', bytes_remaining = 0\<rparr>)"
    by (simp add: read_callback_def memcpy_def c_str_def)
  have cap: "length ''xxxx'' = unat (1::size_t) * unat (4::size_t)" by simp
  have len: "length ''xxxx'' < 2 ^ 64" by simp
  have inv: "unat (bytes_remaining \<lparr>message = ''ab'', bytes_remaining = 3\<rparr>)
        \<le> length (c_str (message \<lparr>message = ''ab'', bytes_remaining = 3\<rparr>))"
    by (simp add: c_str_def)
  show ?thesis
    using rc cap inv read_callback_copies_min [OF rc cap len inv] by simp
qed

subsection \<open>Configuration\<close>

lemma config_of_frame [simp]:
  "config_of (s\<lparr>is_curl_initialized := a\<rparr>) = config_of s"
  "config_of (s\<lparr>smtp_thread := b\<rparr>) = config_of s"
  "config_of (s\<lparr>handles_and_mutexes := c\<rparr>) = config_of s"
  "config_of (s\<lparr>next_address := d\<rparr>) = config_of s"
  "config_of (s\<lparr>curl_global := e\<rparr>) = config_of s"
  "config_of (s\<lparr>multi_handles := f\<rparr>) = config_of s"
  "config_of (s\<lparr>easy_handles := g\<rparr>) = config_of s"
  "config_of (s\<lparr>slists := h\<rparr>) = config_of s"
  "config_of (s\<lparr>rcb_heap := i\<rparr>) = config_of s"
  "config_of (s\<lparr>calls := j\<rparr>) = config_of s"
  "config_of (s\<lparr>eventlog_sink := k\<rparr>) = config_of s"
  by (simp_all add: config_of_def)

lemma smtp_config_invalid:
  "\<not> args_valid ca url port user pw \<Longrightarrow>
     fst (smtp_config ca url port user pw s) = False
   \<and> config_of (snd (smtp_config ca url port user pw s)) = config_of s"
  by (auto simp: args_valid_def smtp_config_def eventlog_def not_le split: option.splits)

lemma smtp_config_valid:
  "port \<le> 65535 \<Longrightarrow>
     smtp_config (Some ca) (Some host) port (Some username) (Some password) s =
       (True, s\<lparr>smtp_ca_cert_store := ca,
                smtp_server_url := snprintf 512 (''smtps://'' @ host),
                smtp_port := uint port,
                smtp_username := username,
                smtp_password := password\<rparr>)"
  by (simp add: smtp_config_def not_le [symmetric])

lemma smtp_config_result:
  "fst (smtp_config ca url port user pw s) = args_valid ca url port user pw"
  by (auto simp: args_valid_def smtp_config_def not_le split: option.splits)

lemma init_slots_config:
  "config_of (snd (init_slots ok slots s)) = config_of s"
  by (induction slots arbitrary: s)
     (simp_all add: curl_multi_init_def Let_def record_call_def eventlog_def split: prod.splits)

lemma init_slots_thread:
  "smtp_thread (snd (init_slots ok slots s)) = smtp_thread s"
  by (induction slots arbitrary: s)
     (simp_all add: curl_multi_init_def Let_def record_call_def eventlog_def split: prod.splits)

lemma smtp_init_invalid:
  assumes "\<not> args_valid ca url port user pw"
  shows "\<exists>s'. smtp_init env ca url port user pw s = Inr (False, s') \<and> config_of s' = config_of s"
proof (cases "is_curl_initialized s")
  case True
  then show ?thesis by (simp add: smtp_init_def eventlog_def)
next
  case False
  obtain r s1 where c: "smtp_config ca url port user pw s = (r, s1)"
    by (cases "smtp_config ca url port user pw s")
  from smtp_config_invalid [OF assms, of s] c have "r = False" "config_of s1 = config_of s"
    by simp_all
  with False c show ?thesis by (simp add: smtp_init_def eventlog_def)
qed

lemma smtp_init_valid:
  assumes v: "port \<le> 65535"
      and f: "\<not> is_curl_initialized s" and t: "\<not> smtp_thread s"
  shows "\<exists>r s'. smtp_init env (Some ca) (Some host) port (Some username) (Some password) s
                  = Inr (r, s')
           \<and> config_of s' = (ca, snprintf 512 (''smtps://'' @ host), uint port, username, password)"
proof -
  define s1 where "s1 = s\<lparr>smtp_ca_cert_store := ca,
                smtp_server_url := snprintf 512 (''smtps://'' @ host),
                smtp_port := uint port,
                smtp_username := username,
                smtp_password := password\<rparr>"
  have c: "smtp_config (Some ca) (Some host) port (Some username) (Some password) s = (True, s1)"
    unfolding s1_def by (rule smtp_config_valid [OF v])
  have c1: "config_of s1 = (ca, snprintf 512 (''smtps://'' @ host), uint port, username, password)"
    by (simp add: s1_def config_of_def)
  obtain b s2
    where sl: "init_slots (multi_init_ok env) [0..<length (handles_and_mutexes s1)] s1 = (b, s2)"
    by (cases "init_slots (multi_init_ok env) [0..<length (handles_and_mutexes s1)] s1")
  have c2: "config_of s2 = config_of s1"
    using init_slots_config [of "multi_init_ok env" "[0..<length (handles_and_mutexes s1)]" s1] sl
    by simp
  have t2: "smtp_thread s2 = smtp_thread s"
    using init_slots_thread [of "multi_init_ok env" "[0..<length (handles_and_mutexes s1)]" s1] sl
    by (simp add: s1_def)
  show ?thesis
    using f c sl c1 c2 t t2
    by (cases b)
       (auto simp: smtp_init_def curl_global_init_def thread_start_def record_call_def eventlog_def)
qed

lemma running_state_eq:
  "running_state =
     \<lparr>is_curl_initialized = True, smtp_thread = True,
      handles_and_mutexes = [(Some 100, False), (Some 101, False)],
      smtp_ca_cert_store = ''/ca.pem'', smtp_server_url = ''smtps://mail.example.com'',
      smtp_port = 587, smtp_username = ''user'', smtp_password = ''pw'',
      next_address = 102, curl_global = True,
      multi_handles = [100 \<mapsto> [], 101 \<mapsto> []], easy_handles = Map.empty, slists = Map.empty,
      rcb_heap = Map.empty,
      calls = [Curl_multi_init, Curl_multi_init, Curl_global_init, Thread_start,
               Store_is_curl_initialized True],
      eventlog_sink = []\<rparr>"
  by (simp add: running_state_def smtp_init_def smtp_config_def initial_state_def
        scenario_init_env_def snprintf_def curl_multi_init_def record_call_def
        curl_global_init_def thread_start_def)

lemma scenario_init:
  "smtp_init scenario_init_env (Some ''/ca.pem'') (Some ''mail.example.com'') 587
     (Some ''user'') (Some ''pw'') initial_state = Inr (True, running_state)"
  unfolding running_state_eq
  by (simp add: smtp_init_def smtp_config_def initial_state_def
        scenario_init_env_def snprintf_def curl_multi_init_def record_call_def
        curl_global_init_def thread_start_def)

text \<open>
  C5. Once \<^verbatim>\<open>smtp_init\<close> has succeeded (the initialization flag is true), another call
  returns failure, logs that libcurl has already been initialized, and changes nothing
  else: the configuration, the pool slots, the poller thread, the flag and the
  transport layer are as before.
\<close>

theorem smtp_init_twice:
  assumes "is_curl_initialized s"
  shows "\<exists>s'. smtp_init env ca url port user pw s = Inr (False, s')
           \<and> s' = s\<lparr>eventlog_sink := eventlog_sink s @
                     [(eventlog_level_error, ''smtp_init'',
                       ''libcurl has already been initialized'', [])]\<rparr>
           \<and> config_of s' = config_of s
           \<and> handles_and_mutexes s' = handles_and_mutexes s
           \<and> smtp_thread s' = smtp_thread s
           \<and> is_curl_initialized s'
           \<and> calls s' = calls s"
  using assms by (simp add: smtp_init_def eventlog_def)

theorem smtp_init_twice_witness:
  "is_curl_initialized running_state
   \<and> smtp_init scenario_init_env (Some ''/other.pem'') (Some ''other.example.com'') 25
        (Some ''u2'') (Some ''p2'') running_state
       = Inr (False, running_state\<lparr>eventlog_sink :=
                [(eventlog_level_error, ''smtp_init'',
                  ''libcurl has already been initialized'', [])]\<rparr>)
   \<and> config_of running_state = (''/ca.pem'', ''smtps://mail.example.com'', 587, ''user'', ''pw'')"
proof -
  have i: "is_curl_initialized running_state"
    by (simp add: running_state_eq)
  have e: "eventlog_sink running_state = []"
    by (simp add: running_state_eq)
  have c: "config_of running_state = (''/ca.pem'', ''smtps://mail.example.com'', 587, ''user'', ''pw'')"
    by (simp add: running_state_eq config_of_def)
  show ?thesis
    using i c smtp_init_twice [OF i, of scenario_init_env "Some ''/other.pem''"
        "Some ''other.example.com''" 25 "Some ''u2''" "Some ''p2''"]
    by (simp add: e)
qed

text \<open>
  C6. While the initialization flag is false, \<^verbatim>\<open>smtp_send_email\<close> returns at once: it
  logs one debug line, makes no call into the transport layer, allocates nothing and
  creates no transfer.
\<close>

theorem send_not_initialized:
  assumes "\<not> is_curl_initialized s"
  shows "\<exists>s'. smtp_send_email env to_address from_address from_name subject msg s = Some s'
           \<and> s' = s\<lparr>eventlog_sink := eventlog_sink s @
                     [(eventlog_level_debug, ''smtp_send_email'',
                       ''libcurl not initialized, returning without attempting to send email'',
                       [])]\<rparr>
           \<and> easy_handles s' = easy_handles s \<and> slists s' = slists s
           \<and> rcb_heap s' = rcb_heap s \<and> multi_handles s' = multi_handles s
           \<and> next_address s' = next_address s \<and> calls s' = calls s"
  using assms by (simp add: smtp_send_email_def eventlog_def)

theorem send_not_initialized_witness:
  "\<not> is_curl_initialized initial_state
   \<and> smtp_send_email \<lparr>easy_init_ok = True, slist_append_ok = True, multi_add_code = 0,
                       date_text = ''Fri, 30 Oct 2026 12:00:00 +0000''\<rparr>
        ''to@example.com'' ''from@example.com'' ''Server'' ''Hello'' ''Body'' initial_state
       = Some (initial_state\<lparr>eventlog_sink :=
                [(eventlog_level_debug, ''smtp_send_email'',
                  ''libcurl not initialized, returning without attempting to send email'',
                  [])]\<rparr>)"
proof -
  have i: "\<not> is_curl_initialized initial_state"
    by (simp add: initial_state_def)
  have e: "eventlog_sink initial_state = []"
    by (simp add: initial_state_def)
  show ?thesis
    using i send_not_initialized [OF i, of "\<lparr>easy_init_ok = True, slist_append_ok = True,
        multi_add_code = 0, date_text = ''Fri, 30 Oct 2026 12:00:00 +0000''\<rparr>"
        "''to@example.com''" "''from@example.com''" "''Server''" "''Hello''" "''Body''"]
    by (simp add: e)
qed

text \<open>
  C10. \<^verbatim>\<open>smtp_reconfig\<close> never looks at the initialization flag: its result and the
  configuration it stores are the same whatever the flag is, the flag stays as it was,
  the call succeeds exactly when its arguments are valid, and it then stores the new
  configuration.
\<close>

theorem smtp_reconfig_ignores_flag:
  "smtp_reconfig ca url port user pw (s\<lparr>is_curl_initialized := b\<rparr>)
     = (case smtp_reconfig ca url port user pw s of
          (r, s') \<Rightarrow> (r, s'\<lparr>is_curl_initialized := b\<rparr>))
   \<and> is_curl_initialized (snd (smtp_reconfig ca url port user pw s)) = is_curl_initialized s
   \<and> fst (smtp_reconfig ca url port user pw s) = args_valid ca url port user pw
   \<and> (port \<le> 65535 \<longrightarrow>
        smtp_reconfig (Some ca') (Some host) port (Some username) (Some password) s =
          (True, s\<lparr>smtp_ca_cert_store := ca',
                   smtp_server_url := snprintf 512 (''smtps://'' @ host),
                   smtp_port := uint port,
                   smtp_username := username,
                   smtp_password := password\<rparr>))"
proof -
  have 1: "smtp_reconfig ca url port user pw (s\<lparr>is_curl_initialized := b\<rparr>)
     = (case smtp_reconfig ca url port user pw s of
          (r, s') \<Rightarrow> (r, s'\<lparr>is_curl_initialized := b\<rparr>))"
    by (simp add: smtp_reconfig_def smtp_config_def eventlog_def split: option.splits)
  have 2: "is_curl_initialized (snd (smtp_reconfig ca url port user pw s)) = is_curl_initialized s"
    by (simp add: smtp_reconfig_def smtp_config_def eventlog_def split: option.splits)
  have 3: "fst (smtp_reconfig ca url port user pw s) = args_valid ca url port user pw"
    by (simp add: smtp_reconfig_def smtp_config_result)
  show ?thesis
    using 1 2 3 by (simp add: smtp_reconfig_def smtp_config_valid)
qed

theorem smtp_reconfig_ignores_flag_witness:
  "(587::uint) \<le> 65535
   \<and> \<not> is_curl_initialized initial_state
   \<and> smtp_reconfig (Some ''/ca.pem'') (Some ''mail.example.com'') 587 (Some ''user'') (Some ''pw'')
        initial_state
      = (True, initial_state\<lparr>smtp_ca_cert_store := ''/ca.pem'',
                 smtp_server_url := ''smtps://mail.example.com'',
                 smtp_port := 587,
                 smtp_username := ''user'',
                 smtp_password := ''pw''\<rparr>)"
proof -
  have p: "(587::uint) \<le> 65535" by simp
  have i: "\<not> is_curl_initialized initial_state" by (simp add: initial_state_def)
  from smtp_reconfig_ignores_flag [where port = 587 and s = initial_state
          and ca' = "''/ca.pem''" and host = "''mail.example.com''"
          and username = "''user''" and password = "''pw''"
          and ca = None and url = None and user = None and pw = None and b = False]
  have "smtp_reconfig (Some ''/ca.pem'') (Some ''mail.example.com'') 587 (Some ''user'') (Some ''pw'')
        initial_state
      = (True, initial_state\<lparr>smtp_ca_cert_store := ''/ca.pem'',
                 smtp_server_url := snprintf 512 (''smtps://'' @ ''mail.example.com''),
                 smtp_port := uint (587::uint),
                 smtp_username := ''user'',
                 smtp_password := ''pw''\<rparr>)"
    using p by blast
  then show ?thesis
    using p i by (simp add: snprintf_def)
qed

text \<open>
  C9. After a successful configuration call the stored server URL is \<^verbatim>\<open>smtps://\<close> followed
  by the host, cut to the 511 characters that fit the 512-byte buffer: a host of more
  than 503 characters is cut to its first 503, and the call still succeeds.
\<close>

theorem smtp_server_url_truncated:
  "(smtp_config ca url port user pw s = (True, s') \<longrightarrow>
      (\<exists>host. url = Some host
         \<and> smtp_server_url s' = take 511 (''smtps://'' @ host)
         \<and> length (smtp_server_url s') \<le> 511
         \<and> (length host \<le> 503 \<longrightarrow> smtp_server_url s' = ''smtps://'' @ host)
         \<and> (503 < length host \<longrightarrow>
               smtp_server_url s' = ''smtps://'' @ take 503 host
               \<and> length (smtp_server_url s') = 511)))
   \<and> (port' \<le> 65535 \<longrightarrow>
        fst (smtp_config (Some ca') (Some long_host) port' (Some username) (Some password) s))"
proof -
  have stored: "\<exists>host. url = Some host
         \<and> smtp_server_url s' = take 511 (''smtps://'' @ host)
         \<and> length (smtp_server_url s') \<le> 511
         \<and> (length host \<le> 503 \<longrightarrow> smtp_server_url s' = ''smtps://'' @ host)
         \<and> (503 < length host \<longrightarrow>
               smtp_server_url s' = ''smtps://'' @ take 503 host
               \<and> length (smtp_server_url s') = 511)"
    if "smtp_config ca url port user pw s = (True, s')"
    using that
    by (auto simp: smtp_config_def snprintf_def eventlog_def split: option.splits if_splits)
  have accepted: "fst (smtp_config (Some ca') (Some long_host) port' (Some username) (Some password) s)"
    if "port' \<le> 65535"
    using that by (simp add: smtp_config_valid)
  show ?thesis
    using stored accepted by blast
qed

theorem smtp_server_url_truncated_witness:
  "(587::uint) \<le> 65535
   \<and> length (replicate 600 (CHR ''a'')) = 600
   \<and> smtp_config (Some ''/ca.pem'') (Some (replicate 600 (CHR ''a''))) 587 (Some ''user'') (Some ''pw'')
       initial_state
     = (True, initial_state\<lparr>smtp_ca_cert_store := ''/ca.pem'',
                 smtp_server_url := ''smtps://'' @ replicate 503 (CHR ''a''),
                 smtp_port := 587,
                 smtp_username := ''user'',
                 smtp_password := ''pw''\<rparr>)
   \<and> length (''smtps://'' @ replicate 503 (CHR ''a'')) = 511"
proof -
  have c: "smtp_config (Some ''/ca.pem'') (Some (replicate 600 (CHR ''a''))) 587 (Some ''user'') (Some ''pw'')
       initial_state
     = (True, initial_state\<lparr>smtp_ca_cert_store := ''/ca.pem'',
                 smtp_server_url := ''smtps://'' @ replicate 503 (CHR ''a''),
                 smtp_port := 587,
                 smtp_username := ''user'',
                 smtp_password := ''pw''\<rparr>)"
    by (simp add: smtp_config_def snprintf_def)
  note w = smtp_server_url_truncated [where ca = "Some ''/ca.pem''"
      and url = "Some (replicate 600 (CHR ''a''))" and port = 587 and user = "Some ''user''"
      and pw = "Some ''pw''" and s = initial_state
      and s' = "initial_state\<lparr>smtp_ca_cert_store := ''/ca.pem'',
                 smtp_server_url := ''smtps://'' @ replicate 503 (CHR ''a''),
                 smtp_port := 587,
                 smtp_username := ''user'',
                 smtp_password := ''pw''\<rparr>"
      and port' = 587 and ca' = "''/ca.pem''" and long_host = "replicate 600 (CHR ''a'')"
      and username = "''user''" and password = "''pw''"]
  have "length (smtp_server_url (initial_state\<lparr>smtp_ca_cert_store := ''/ca.pem'',
                 smtp_server_url := ''smtps://'' @ replicate 503 (CHR ''a''),
                 smtp_port := 587,
                 smtp_username := ''user'',
                 smtp_password := ''pw''\<rparr>)) = 511"
    using w c by simp
  then show ?thesis
    using c by simp
qed

lemma smtp_consumer_stopped:
  "\<not> is_curl_initialized s \<Longrightarrow> smtp_consumer env k s = Some s"
  by (subst smtp_consumer.simps) simp

subsection \<open>Submission and streaming\<close>

lemma fmt_angle: "fmt_format ''<{}>'' [x] = ''<'' @ x @ ''>''"
  by (simp add: fmt_format_def)

lemma setopt_frame [simp]:
  "rcb_heap (curl_easy_setopt c opt v s) = rcb_heap s"
  "slists (curl_easy_setopt c opt v s) = slists s"
  "next_address (curl_easy_setopt c opt v s) = next_address s"
  "handles_and_mutexes (curl_easy_setopt c opt v s) = handles_and_mutexes s"
  "multi_handles (curl_easy_setopt c opt v s) = multi_handles s"
  "is_curl_initialized (curl_easy_setopt c opt v s) = is_curl_initialized s"
  "smtp_thread (curl_easy_setopt c opt v s) = smtp_thread s"
  by (simp_all add: curl_easy_setopt_def record_call_def split: option.splits)

lemma setopt_easy_keep:
  assumes "easy_handles t = m(a \<mapsto> opts)"
  shows "\<exists>opts'. easy_handles (curl_easy_setopt (Some a) opt v t) = m(a \<mapsto> opts')
           \<and> opts' opt = Some v \<and> (\<forall>k. k \<noteq> opt \<longrightarrow> opts' k = opts k)"
  using assms
  by (intro exI [of _ "opts(opt \<mapsto> v)"]) (simp add: curl_easy_setopt_def record_call_def)

lemma send_prefix:
  assumes f: "is_curl_initialized s"
      and e: "easy_init_ok env" and l: "slist_append_ok env"
  shows "\<exists>s16 opts.
       smtp_send_email env to_address from_address from_name subject msg s
         = acquire_slot (multi_add_code env) (Some (next_address s)) s16
     \<and> rcb_heap s16 = (rcb_heap s)(next_address s + 2 \<mapsto>
           new_read_callback_message
             (compose_message (date_text env) to_address from_address from_name subject msg))
     \<and> slists s16 = (slists s)(next_address s + 1 \<mapsto> [''<'' @ to_address @ ''>''])
     \<and> easy_handles s16 = (easy_handles s)(next_address s \<mapsto> opts)
     \<and> opts CURLOPT_PRIVATE = Some (Pointer (Some (next_address s + 1)))
     \<and> opts CURLOPT_READDATA = Some (Pointer (Some (next_address s + 2)))
     \<and> next_address s16 = next_address s + 3
     \<and> handles_and_mutexes s16 = handles_and_mutexes s
     \<and> multi_handles s16 = multi_handles s
     \<and> is_curl_initialized s16 \<and> smtp_thread s16 = smtp_thread s"
proof -
  define a where "a = next_address s"
  define curl where "curl = Some a"
  define s1 where "s1 = snd (curl_easy_init True s)"
  define s2 where "s2 = curl_easy_setopt curl CURLOPT_USE_SSL (Long CURLUSESSL_ALL) s1"
  define s3 where "s3 = curl_easy_setopt curl CURLOPT_CAINFO (Str (smtp_ca_cert_store s2)) s2"
  define s4 where "s4 = curl_easy_setopt curl CURLOPT_URL (Str (smtp_server_url s3)) s3"
  define s5 where "s5 = curl_easy_setopt curl CURLOPT_PORT (Long (smtp_port s4)) s4"
  define s6 where "s6 = curl_easy_setopt curl CURLOPT_USERNAME (Str (smtp_username s5)) s5"
  define s7 where "s7 = curl_easy_setopt curl CURLOPT_PASSWORD (Str (smtp_password s6)) s6"
  define s8 where "s8 = curl_easy_setopt curl CURLOPT_MAIL_FROM
                           (Str (fmt_format ''<{}>'' [from_address])) s7"
  define recipient where "recipient = Some (a + 1)"
  define s9 where "s9 = snd (curl_slist_append True (fmt_format ''<{}>'' [to_address]) s8)"
  define s10 where "s10 = curl_easy_setopt curl CURLOPT_MAIL_RCPT (Pointer recipient) s9"
  define s11 where "s11 = curl_easy_setopt curl CURLOPT_PRIVATE (Pointer recipient) s10"
  define s12 where "s12 = curl_easy_setopt curl CURLOPT_READFUNCTION Function_read_callback s11"
  define composed where "composed = compose_message (date_text env) to_address from_address
                                           from_name subject msg"
  define s14 where "s14 = s12\<lparr>next_address := a + 3,
                             rcb_heap := (rcb_heap s12)(a + 2 \<mapsto> new_read_callback_message composed)\<rparr>"
  define s15 where "s15 = curl_easy_setopt curl CURLOPT_READDATA (Pointer (Some (a + 2))) s14"
  define s16 where "s16 = curl_easy_setopt curl CURLOPT_UPLOAD (Long 1) s15"
  have i1: "curl_easy_init (easy_init_ok env) s = (curl, s1)"
    using e by (simp add: curl_easy_init_def s1_def curl_def a_def)
  have n8: "next_address s8 = a + 1"
    by (simp add: s8_def s7_def s6_def s5_def s4_def s3_def s2_def s1_def curl_easy_init_def
          record_call_def a_def)
  have i9: "curl_slist_append (slist_append_ok env) (fmt_format ''<{}>'' [to_address]) s8
              = (recipient, s9)"
    using l n8 by (simp add: curl_slist_append_def s9_def recipient_def)
  have n12: "next_address s12 = a + 2"
    using n8 by (simp add: s12_def s11_def s10_def s9_def curl_slist_append_def record_call_def)
  have i13: "xmalloc s12 = (a + 2, s12\<lparr>next_address := a + 3\<rparr>)"
    using n12 by (simp add: xmalloc_def)
  have main: "smtp_send_email env to_address from_address from_name subject msg s
         = acquire_slot (multi_add_code env) curl s16"
    using f
    by (simp only: smtp_send_email_def i1 s2_def [symmetric] s3_def [symmetric]
          s4_def [symmetric] s5_def [symmetric] s6_def [symmetric] s7_def [symmetric]
          s8_def [symmetric] i9 s10_def [symmetric] s11_def [symmetric] s12_def [symmetric]
          composed_def [symmetric] i13 s14_def [symmetric] s15_def [symmetric]
          s16_def [symmetric] Let_def prod.case)
       (simp add: curl_def recipient_def s16_def s15_def s14_def)
  have fr1: "rcb_heap s1 = rcb_heap s" "slists s1 = slists s"
    "handles_and_mutexes s1 = handles_and_mutexes s" "multi_handles s1 = multi_handles s"
    "is_curl_initialized s1 = is_curl_initialized s"
    "easy_handles s1 = (easy_handles s)(a \<mapsto> Map.empty)"
    "smtp_thread s1 = smtp_thread s"
    by (simp_all add: s1_def curl_easy_init_def record_call_def a_def)
  have fr8: "rcb_heap s8 = rcb_heap s" "slists s8 = slists s"
    "handles_and_mutexes s8 = handles_and_mutexes s" "multi_handles s8 = multi_handles s"
    "is_curl_initialized s8 = is_curl_initialized s" "smtp_thread s8 = smtp_thread s"
    by (simp_all add: s8_def s7_def s6_def s5_def s4_def s3_def s2_def fr1)
  have fr9: "rcb_heap s9 = rcb_heap s"
    "slists s9 = (slists s)(a + 1 \<mapsto> [''<'' @ to_address @ ''>''])"
    "handles_and_mutexes s9 = handles_and_mutexes s" "multi_handles s9 = multi_handles s"
    "is_curl_initialized s9 = is_curl_initialized s" "easy_handles s9 = easy_handles s8"
    "smtp_thread s9 = smtp_thread s"
    using n8 by (simp_all add: s9_def curl_slist_append_def record_call_def fr8 fmt_angle)
  have fr12: "rcb_heap s12 = rcb_heap s"
    "slists s12 = (slists s)(a + 1 \<mapsto> [''<'' @ to_address @ ''>''])"
    "handles_and_mutexes s12 = handles_and_mutexes s" "multi_handles s12 = multi_handles s"
    "is_curl_initialized s12 = is_curl_initialized s" "smtp_thread s12 = smtp_thread s"
    by (simp_all add: s12_def s11_def s10_def fr9)
  have fr16: "rcb_heap s16 = (rcb_heap s)(a + 2 \<mapsto> new_read_callback_message composed)"
    "slists s16 = (slists s)(a + 1 \<mapsto> [''<'' @ to_address @ ''>''])"
    "handles_and_mutexes s16 = handles_and_mutexes s" "multi_handles s16 = multi_handles s"
    "is_curl_initialized s16 = is_curl_initialized s" "next_address s16 = a + 3"
    "smtp_thread s16 = smtp_thread s"
    by (simp_all add: s16_def s15_def s14_def fr12)
  obtain o2 where e2: "easy_handles s2 = (easy_handles s)(a \<mapsto> o2)"
    using setopt_easy_keep [OF fr1(6)] unfolding s2_def curl_def by blast
  obtain o3 where e3: "easy_handles s3 = (easy_handles s)(a \<mapsto> o3)"
    using setopt_easy_keep [OF e2] unfolding s3_def curl_def by blast
  obtain o4 where e4: "easy_handles s4 = (easy_handles s)(a \<mapsto> o4)"
    using setopt_easy_keep [OF e3] unfolding s4_def curl_def by blast
  obtain o5 where e5: "easy_handles s5 = (easy_handles s)(a \<mapsto> o5)"
    using setopt_easy_keep [OF e4] unfolding s5_def curl_def by blast
  obtain o6 where e6: "easy_handles s6 = (easy_handles s)(a \<mapsto> o6)"
    using setopt_easy_keep [OF e5] unfolding s6_def curl_def by blast
  obtain o7 where e7: "easy_handles s7 = (easy_handles s)(a \<mapsto> o7)"
    using setopt_easy_keep [OF e6] unfolding s7_def curl_def by blast
  obtain o8 where e8: "easy_handles s8 = (easy_handles s)(a \<mapsto> o8)"
    using setopt_easy_keep [OF e7] unfolding s8_def curl_def by blast
  have e9: "easy_handles s9 = (easy_handles s)(a \<mapsto> o8)"
    using e8 fr9(6) by simp
  obtain o10 where e10: "easy_handles s10 = (easy_handles s)(a \<mapsto> o10)"
    using setopt_easy_keep [OF e9] unfolding s10_def curl_def by blast
  obtain o11 where e11: "easy_handles s11 = (easy_handles s)(a \<mapsto> o11)"
    and p11: "o11 CURLOPT_PRIVATE = Some (Pointer recipient)"
    using setopt_easy_keep [OF e10] unfolding s11_def curl_def by blast
  obtain o12 where e12: "easy_handles s12 = (easy_handles s)(a \<mapsto> o12)"
    and p12: "o12 CURLOPT_PRIVATE = Some (Pointer recipient)"
    using setopt_easy_keep [OF e11, of CURLOPT_READFUNCTION Function_read_callback] p11
    unfolding s12_def curl_def by auto
  have e14: "easy_handles s14 = (easy_handles s)(a \<mapsto> o12)"
    using e12 by (simp add: s14_def)
  obtain o15 where e15: "easy_handles s15 = (easy_handles s)(a \<mapsto> o15)"
    and p15: "o15 CURLOPT_PRIVATE = Some (Pointer recipient)"
    and r15: "o15 CURLOPT_READDATA = Some (Pointer (Some (a + 2)))"
    using setopt_easy_keep [OF e14, of CURLOPT_READDATA "Pointer (Some (a + 2))"] p12
    unfolding s15_def curl_def by auto
  obtain o16 where e16: "easy_handles s16 = (easy_handles s)(a \<mapsto> o16)"
    and p16: "o16 CURLOPT_PRIVATE = Some (Pointer recipient)"
    and r16: "o16 CURLOPT_READDATA = Some (Pointer (Some (a + 2)))"
    using setopt_easy_keep [OF e15, of CURLOPT_UPLOAD "Long 1"] p15 r15
    unfolding s16_def curl_def by auto
  show ?thesis
    using main fr16 e16 p16 r16 f
    unfolding a_def [symmetric] composed_def [symmetric] curl_def recipient_def
    by blast
qed

lemma add_to_first_free_head:
  assumes "handles_and_mutexes s = (h0, False) # rest"
  shows "add_to_first_free code curl (0 # slots) s =
           Some (set_mutex 0 False
                  ((if code = 0
                    then eventlog eventlog_level_trace ''smtp_send_email''
                           ''Added handle to CURL multi handle ({})'' [Arg_pointer h0]
                    else eventlog eventlog_level_error ''smtp_send_email''
                           ''Failed to add handle to CURL multi handle (CURLMcode: {})''
                           [Arg_code code])
                   (snd (curl_multi_add_handle code h0 curl (set_mutex 0 True s)))))"
  using assms by (simp add: set_mutex_def curl_multi_add_handle_def Let_def)

lemma acquire_slot_head:
  assumes "handles_and_mutexes s = (h0, False) # rest"
  shows "acquire_slot code curl s =
           Some (set_mutex 0 False
                  ((if code = 0
                    then eventlog eventlog_level_trace ''smtp_send_email''
                           ''Added handle to CURL multi handle ({})'' [Arg_pointer h0]
                    else eventlog eventlog_level_error ''smtp_send_email''
                           ''Failed to add handle to CURL multi handle (CURLMcode: {})''
                           [Arg_code code])
                   (snd (curl_multi_add_handle code h0 curl (set_mutex 0 True s)))))"
proof -
  have "[0..<length (handles_and_mutexes s)] = 0 # [Suc 0..<length (handles_and_mutexes s)]"
    by (rule upt_conv_Cons) (simp add: assms)
  then show ?thesis
    by (subst acquire_slot.simps) (simp only: add_to_first_free_head [OF assms] option.case)
qed

lemma acquire_slot_frame:
  assumes "handles_and_mutexes s = (h0, False) # rest"
  shows "\<exists>s'. acquire_slot code curl s = Some s'
           \<and> rcb_heap s' = rcb_heap s \<and> slists s' = slists s
           \<and> easy_handles s' = easy_handles s \<and> next_address s' = next_address s
           \<and> handles_and_mutexes s' = handles_and_mutexes s
           \<and> is_curl_initialized s' = is_curl_initialized s
           \<and> smtp_thread s' = smtp_thread s
           \<and> multi_handles s' =
                (case (h0, curl) of
                   (Some m, Some c) \<Rightarrow>
                     (case multi_handles s m of
                        Some attached \<Rightarrow>
                          if code = 0 then (multi_handles s)(m \<mapsto> attached @ [c])
                          else multi_handles s
                      | None \<Rightarrow> multi_handles s)
                 | _ \<Rightarrow> multi_handles s)"
  unfolding acquire_slot_head [OF assms]
  using assms
  by (simp add: set_mutex_def eventlog_def curl_multi_add_handle_def record_call_def
        split: option.splits)



lemma smtp_send_email_attached:
  assumes f: "is_curl_initialized s"
      and e: "easy_init_ok env" and l: "slist_append_ok env"
      and h: "handles_and_mutexes s = (h0, False) # rest"
  shows "\<exists>s' opts.
       smtp_send_email env to_address from_address from_name subject msg s = Some s'
     \<and> rcb_heap s' = (rcb_heap s)(next_address s + 2 \<mapsto>
           new_read_callback_message
             (compose_message (date_text env) to_address from_address from_name subject msg))
     \<and> slists s' = (slists s)(next_address s + 1 \<mapsto> [''<'' @ to_address @ ''>''])
     \<and> easy_handles s' = (easy_handles s)(next_address s \<mapsto> opts)
     \<and> opts CURLOPT_PRIVATE = Some (Pointer (Some (next_address s + 1)))
     \<and> opts CURLOPT_READDATA = Some (Pointer (Some (next_address s + 2)))
     \<and> next_address s' = next_address s + 3
     \<and> handles_and_mutexes s' = handles_and_mutexes s
     \<and> is_curl_initialized s' \<and> smtp_thread s' = smtp_thread s
     \<and> multi_handles s' =
          (case (h0, Some (next_address s)) of
             (Some m, Some c) \<Rightarrow>
               (case multi_handles s m of
                  Some attached \<Rightarrow>
                    if multi_add_code env = 0 then (multi_handles s)(m \<mapsto> attached @ [c])
                    else multi_handles s
                | None \<Rightarrow> multi_handles s)
           | _ \<Rightarrow> multi_handles s)"
proof -
  obtain s16 opts where p:
    "smtp_send_email env to_address from_address from_name subject msg s
         = acquire_slot (multi_add_code env) (Some (next_address s)) s16"
    "rcb_heap s16 = (rcb_heap s)(next_address s + 2 \<mapsto>
           new_read_callback_message
             (compose_message (date_text env) to_address from_address from_name subject msg))"
    "slists s16 = (slists s)(next_address s + 1 \<mapsto> [''<'' @ to_address @ ''>''])"
    "easy_handles s16 = (easy_handles s)(next_address s \<mapsto> opts)"
    "opts CURLOPT_PRIVATE = Some (Pointer (Some (next_address s + 1)))"
    "opts CURLOPT_READDATA = Some (Pointer (Some (next_address s + 2)))"
    "next_address s16 = next_address s + 3"
    "handles_and_mutexes s16 = handles_and_mutexes s"
    "multi_handles s16 = multi_handles s"
    "is_curl_initialized s16" "smtp_thread s16 = smtp_thread s"
    using send_prefix [OF f e l, of to_address from_address from_name subject msg] by blast
  have h16: "handles_and_mutexes s16 = (h0, False) # rest"
    using p(8) h by simp
  obtain s' where q: "acquire_slot (multi_add_code env) (Some (next_address s)) s16 = Some s'"
    "rcb_heap s' = rcb_heap s16" "slists s' = slists s16"
    "easy_handles s' = easy_handles s16" "next_address s' = next_address s16"
    "handles_and_mutexes s' = handles_and_mutexes s16"
    "is_curl_initialized s' = is_curl_initialized s16"
    "smtp_thread s' = smtp_thread s16"
    "multi_handles s' =
          (case (h0, Some (next_address s)) of
             (Some m, Some c) \<Rightarrow>
               (case multi_handles s16 m of
                  Some attached \<Rightarrow>
                    if multi_add_code env = 0 then (multi_handles s16)(m \<mapsto> attached @ [c])
                    else multi_handles s16
                | None \<Rightarrow> multi_handles s16)
           | _ \<Rightarrow> multi_handles s16)"
    using acquire_slot_frame [OF h16, of "multi_add_code env" "Some (next_address s)"] by blast
  note m = q(9) [unfolded p(9)]
  show ?thesis
    using p(1-8) p(10-11) q(1-8) m h by (intro exI [of _ s'] exI [of _ opts]) simp
qed

lemma read_callback_zero:
  "sz * nitems \<noteq> 0 \<Longrightarrow>
     (fst (read_callback buffer sz nitems m) = 0) = (bytes_remaining m = 0)"
  by (auto simp: read_callback_def Let_def word_gt_0 split: if_splits)

lemma read_callback_chunk:
  assumes rc: "read_callback (replicate (unat (sz * nitems)) NUL) sz nitems m = (ret, buffer', m')"
      and inv: "unat (bytes_remaining m) \<le> length (message m) + 1"
  shows "take (unat ret) buffer' = take (unat ret) (c_str (message m))"
    and "length (take (unat ret) buffer') = unat ret"
proof -
  note w = read_callback_word [OF rc]
  have "unat ret \<le> unat (bytes_remaining m)"
    by (simp add: w(1) unat_min_word)
  then have l: "unat ret \<le> length (c_str (message m))"
    using inv by (simp add: c_str_def)
  show "take (unat ret) buffer' = take (unat ret) (c_str (message m))"
    using l by (simp add: w(2) memcpy_def)
  then show "length (take (unat ret) buffer') = unat ret"
    using l by simp
qed

lemma transport_reads_drain:
  assumes "\<forall>(sz, nitems) \<in> set caps. sz * nitems \<noteq> 0"
      and "unat (bytes_remaining m) < length caps"
      and "unat (bytes_remaining m) \<le> length (message m) + 1"
  shows "\<exists>chunks m'. transport_reads caps m = (chunks, True, m')
           \<and> bytes_remaining m' = 0 \<and> message m' = message m
           \<and> length chunks \<le> unat (bytes_remaining m)
           \<and> [] \<notin> set chunks
           \<and> length (concat chunks) = unat (bytes_remaining m)"
  using assms
proof (induction caps arbitrary: m)
  case Nil
  then show ?case by simp
next
  case (Cons cap caps)
  obtain sz nitems where cap: "cap = (sz, nitems)" by (cases cap)
  have pos: "sz * nitems \<noteq> 0"
    using Cons.prems(1) cap by auto
  obtain ret buffer' m'
    where rc: "read_callback (replicate (unat (sz * nitems)) NUL) sz nitems m = (ret, buffer', m')"
    by (cases "read_callback (replicate (unat (sz * nitems)) NUL) sz nitems m") auto
  note w = read_callback_word [OF rc]
  show ?case
  proof (cases "bytes_remaining m = 0")
    case True
    then have "ret = 0" by (simp add: w(1))
    then show ?thesis
      using True rc cap w(3) by simp
  next
    case False
    then have r0: "ret \<noteq> 0"
      using read_callback_zero [OF pos, of "replicate (unat (sz * nitems)) NUL" m] rc by simp
    then have r1: "0 < unat ret"
      by (simp add: unat_gt_0)
    have le: "ret \<le> bytes_remaining m"
      by (simp add: w(1))
    have rem: "unat (bytes_remaining m') = unat (bytes_remaining m) - unat ret"
      by (simp add: w(3) unat_sub [OF le])
    have le': "unat ret \<le> unat (bytes_remaining m)"
      using le by (simp add: word_le_nat_alt)
    have msg: "message m' = message m"
      by (simp add: w(3))
    have p1: "\<forall>(sz, nitems) \<in> set caps. sz * nitems \<noteq> 0"
      using Cons.prems(1) by simp
    have p2: "unat (bytes_remaining m') < length caps"
      using Cons.prems(2) rem r1 le' by simp
    have p3: "unat (bytes_remaining m') \<le> length (message m') + 1"
      using Cons.prems(3) rem msg by simp
    obtain chunks m'' where ih: "transport_reads caps m' = (chunks, True, m'')"
      "bytes_remaining m'' = 0" "message m'' = message m'"
      "length chunks \<le> unat (bytes_remaining m')" "[] \<notin> set chunks"
      "length (concat chunks) = unat (bytes_remaining m')"
      using Cons.IH [OF p1 p2 p3] by blast
    note ch = read_callback_chunk [OF rc Cons.prems(3)]
    have res: "transport_reads (cap # caps) m = (take (unat ret) buffer' # chunks, True, m'')"
      using rc r0 ih(1) cap by simp
    have ne: "take (unat ret) buffer' \<noteq> []"
      using ch(2) r1 by auto
    show ?thesis
      using res ih(2) ih(3) ih(4) ih(5) ih(6) msg ne ch(2) rem r1 le'
      by (simp del: length_take)
  qed
qed

lemma new_rcb_remaining:
  "length msg + 1 < 2 ^ 64 \<Longrightarrow>
     unat (bytes_remaining (new_read_callback_message msg)) = length msg + 1"
  by (simp add: new_read_callback_message_def unat_word_ariths unat_of_nat)

lemma transport_reads_single:
  assumes len: "length msg + 1 < 2 ^ 64"
      and big: "length msg + 1 \<le> unat (sz * nitems)"
      and pos: "sz' * nitems' \<noteq> 0"
  shows "\<exists>m'. transport_reads ((sz, nitems) # (sz', nitems') # rest) (new_read_callback_message msg)
           = ([msg @ [NUL]], True, m')"
proof -
  let ?m = "new_read_callback_message msg"
  obtain ret buffer' m'
    where rc: "read_callback (replicate (unat (sz * nitems)) NUL) sz nitems ?m = (ret, buffer', m')"
    by (cases "read_callback (replicate (unat (sz * nitems)) NUL) sz nitems ?m") auto
  note w = read_callback_word [OF rc]
  note r = new_rcb_remaining [OF len]
  have le: "bytes_remaining ?m \<le> sz * nitems"
    using big r by (simp add: word_le_nat_alt)
  then have ret: "ret = bytes_remaining ?m"
    by (simp add: w(1) min_def)
  have u: "unat ret = length msg + 1"
    using ret r by simp
  have r0: "ret \<noteq> 0"
    using u by (auto simp: unat_eq_zero [symmetric])
  have inv: "unat (bytes_remaining ?m) \<le> length (message ?m) + 1"
    using r by (simp add: new_read_callback_message_def)
  have ch: "take (unat ret) buffer' = msg @ [NUL]"
    using read_callback_chunk(1) [OF rc inv] u
    by (simp add: new_read_callback_message_def c_str_def)
  have z: "bytes_remaining m' = 0"
    by (simp add: w(3) ret)
  have nx: "\<exists>b. read_callback b0 sz' nitems' m' = (0, b, m')" for b0
    using z by (simp add: read_callback_def Let_def)
  then obtain b where nx': "read_callback (replicate (unat (sz' * nitems')) NUL) sz' nitems' m' = (0, b, m')"
    by blast
  show ?thesis
    using rc r0 ch nx' by simp
qed

subsection \<open>The poller and shutdown: what is released\<close>

lemma drain_completions_rcb_heap:
  "rcb_heap (drain_completions h msgs s) = rcb_heap s"
  by (induction msgs arbitrary: s)
     (auto simp: Let_def record_call_def curl_multi_remove_handle_def curl_easy_getinfo_private_def
        curl_slist_free_all_def curl_easy_cleanup_def
        split: prod.splits option.splits optval.splits)

lemma smtp_consumer_slot_rcb_heap:
  "rcb_heap (smtp_consumer_slot env i s) = rcb_heap s"
  by (simp add: smtp_consumer_slot_def Let_def set_mutex_def record_call_def
        drain_completions_rcb_heap split: prod.splits)

lemma fold_slots_rcb_heap:
  "rcb_heap (fold (\<lambda>i. smtp_consumer_slot (env i) i) slots s) = rcb_heap s"
  by (induction slots arbitrary: s) (simp_all add: smtp_consumer_slot_rcb_heap)

lemma smtp_consumer_pass_rcb_heap:
  "rcb_heap (smtp_consumer_pass env s) = rcb_heap s"
  by (simp add: smtp_consumer_pass_def fold_slots_rcb_heap)

lemma fold_cleanup_fields:
  "rcb_heap (fold (\<lambda>slot. curl_multi_cleanup (fst slot)) slots t) = rcb_heap t"
  "easy_handles (fold (\<lambda>slot. curl_multi_cleanup (fst slot)) slots t) = easy_handles t"
  "slists (fold (\<lambda>slot. curl_multi_cleanup (fst slot)) slots t) = slists t"
  "multi_handles (fold (\<lambda>slot. curl_multi_cleanup (fst slot)) slots t) a =
     (if Some a \<in> fst ` set slots then None else multi_handles t a)"
  by (induction slots arbitrary: t)
     (auto simp: curl_multi_cleanup_def record_call_def split: option.splits)

lemma smtp_cleanup_frame:
  assumes f: "is_curl_initialized s" and t: "smtp_thread s"
  shows "\<exists>s'. smtp_cleanup env s = Inr s'
           \<and> rcb_heap s' = rcb_heap s \<and> easy_handles s' = easy_handles s
           \<and> slists s' = slists s
           \<and> (\<forall>a. multi_handles s' a =
                 (if Some a \<in> fst ` set (handles_and_mutexes s) then None else multi_handles s a))
           \<and> \<not> curl_global s' \<and> \<not> is_curl_initialized s'"
proof -
  define s1 where "s1 = record_call (Store_is_curl_initialized False) (s\<lparr>is_curl_initialized := False\<rparr>)"
  have f1: "\<not> is_curl_initialized s1" and t1: "smtp_thread s1"
    using t by (simp_all add: s1_def record_call_def)
  define s2 where "s2 = record_call Thread_join (s1\<lparr>smtp_thread := False\<rparr>)"
  have j: "thread_join env s1 = Inr s2"
    using t1 by (simp add: thread_join_def smtp_consumer_stopped [OF f1] s2_def)
  define s3 where "s3 = fold (\<lambda>slot. curl_multi_cleanup (fst slot)) (handles_and_mutexes s2) s2"
  have r: "smtp_cleanup env s = Inr (curl_global_cleanup s3)"
    using f j by (simp add: smtp_cleanup_def s1_def [symmetric] s3_def)
  have s2f: "rcb_heap s2 = rcb_heap s" "easy_handles s2 = easy_handles s" "slists s2 = slists s"
    "multi_handles s2 = multi_handles s" "handles_and_mutexes s2 = handles_and_mutexes s"
    "\<not> is_curl_initialized s2"
    by (simp_all add: s2_def s1_def record_call_def)
  have fl: "is_curl_initialized (fold (\<lambda>slot. curl_multi_cleanup (fst slot)) slots u)
              = is_curl_initialized u" for slots u
    by (induction slots arbitrary: u)
       (simp_all add: curl_multi_cleanup_def record_call_def split: option.splits)
  show ?thesis
    unfolding r
    by (simp add: curl_global_cleanup_def record_call_def s3_def fold_cleanup_fields s2f fl)
qed

lemma first_send:
  "\<exists>s opts. smtp_send_email scenario_send_env ''a@example.com'' ''noreply@example.com''
             ''Server'' ''Hello'' ''First'' running_state = Some s
     \<and> rcb_heap s = [104 \<mapsto> new_read_callback_message
           (compose_message ''Fri, 30 Oct 2026 12:00:00 +0000'' ''a@example.com''
              ''noreply@example.com'' ''Server'' ''Hello'' ''First'')]
     \<and> slists s = [103 \<mapsto> [''<a@example.com>'']]
     \<and> easy_handles s = [102 \<mapsto> opts]
     \<and> opts CURLOPT_PRIVATE = Some (Pointer (Some 103))
     \<and> next_address s = 105
     \<and> handles_and_mutexes s = [(Some 100, False), (Some 101, False)]
     \<and> is_curl_initialized s \<and> smtp_thread s
     \<and> multi_handles s = [100 \<mapsto> [102], 101 \<mapsto> []]"
proof -
  have pre: "is_curl_initialized running_state" "easy_init_ok scenario_send_env"
    "slist_append_ok scenario_send_env"
    "handles_and_mutexes running_state = (Some 100, False) # [(Some 101, False)]"
    by (simp_all add: running_state_eq scenario_send_env_def)
  obtain s opts where a:
    "smtp_send_email scenario_send_env ''a@example.com'' ''noreply@example.com''
             ''Server'' ''Hello'' ''First'' running_state = Some s"
    "rcb_heap s = (rcb_heap running_state)(next_address running_state + 2 \<mapsto>
           new_read_callback_message
             (compose_message (date_text scenario_send_env) ''a@example.com''
                ''noreply@example.com'' ''Server'' ''Hello'' ''First''))"
    "slists s = (slists running_state)(next_address running_state + 1 \<mapsto> [''<'' @ ''a@example.com'' @ ''>''])"
    "easy_handles s = (easy_handles running_state)(next_address running_state \<mapsto> opts)"
    "opts CURLOPT_PRIVATE = Some (Pointer (Some (next_address running_state + 1)))"
    "next_address s = next_address running_state + 3"
    "handles_and_mutexes s = handles_and_mutexes running_state"
    "is_curl_initialized s" "smtp_thread s = smtp_thread running_state"
    "multi_handles s =
          (case (Some 100, Some (next_address running_state)) of
             (Some m, Some c) \<Rightarrow>
               (case multi_handles running_state m of
                  Some attached \<Rightarrow>
                    if multi_add_code scenario_send_env = 0
                    then (multi_handles running_state)(m \<mapsto> attached @ [c])
                    else multi_handles running_state
                | None \<Rightarrow> multi_handles running_state)
           | _ \<Rightarrow> multi_handles running_state)"
    using smtp_send_email_attached [OF pre, of "''a@example.com''" "''noreply@example.com''"
        "''Server''" "''Hello''" "''First''"]
    by blast
  have m: "multi_handles s = [100 \<mapsto> [102], 101 \<mapsto> []]"
    unfolding a(10) by (auto simp: running_state_eq scenario_send_env_def)
  show ?thesis
    using a(1-9) m
    by (intro exI [of _ s] exI [of _ opts]) (simp add: running_state_eq scenario_send_env_def)
qed

lemma transport_frame [simp]:
  "handles_and_mutexes (record_call c s) = handles_and_mutexes s"
  "is_curl_initialized (record_call c s) = is_curl_initialized s"
  "smtp_thread (record_call c s) = smtp_thread s"
  "handles_and_mutexes (curl_multi_remove_handle h e s) = handles_and_mutexes s"
  "is_curl_initialized (curl_multi_remove_handle h e s) = is_curl_initialized s"
  "smtp_thread (curl_multi_remove_handle h e s) = smtp_thread s"
  "handles_and_mutexes (snd (curl_easy_getinfo_private e old s)) = handles_and_mutexes s"
  "is_curl_initialized (snd (curl_easy_getinfo_private e old s)) = is_curl_initialized s"
  "smtp_thread (snd (curl_easy_getinfo_private e old s)) = smtp_thread s"
  "handles_and_mutexes (curl_slist_free_all l s) = handles_and_mutexes s"
  "is_curl_initialized (curl_slist_free_all l s) = is_curl_initialized s"
  "smtp_thread (curl_slist_free_all l s) = smtp_thread s"
  "handles_and_mutexes (curl_easy_cleanup e s) = handles_and_mutexes s"
  "is_curl_initialized (curl_easy_cleanup e s) = is_curl_initialized s"
  "smtp_thread (curl_easy_cleanup e s) = smtp_thread s"
  by (simp_all add: record_call_def curl_multi_remove_handle_def curl_easy_getinfo_private_def
        curl_slist_free_all_def curl_easy_cleanup_def split: option.splits prod.splits)

lemma drain_completions_frame:
  "handles_and_mutexes (drain_completions h msgs s) = handles_and_mutexes s
   \<and> is_curl_initialized (drain_completions h msgs s) = is_curl_initialized s
   \<and> smtp_thread (drain_completions h msgs s) = smtp_thread s"
proof (induction msgs arbitrary: s)
  case Nil
  show ?case by simp
next
  case (Cons x msgs)
  obtain msg curl where x: "x = (msg, curl)" by (cases x)
  obtain r s3 where g: "curl_easy_getinfo_private curl None
      (curl_multi_remove_handle h curl (record_call (Curl_multi_info_read h) s)) = (r, s3)"
    by (cases "curl_easy_getinfo_private curl None
      (curl_multi_remove_handle h curl (record_call (Curl_multi_info_read h) s))")
  have s3: "handles_and_mutexes s3 = handles_and_mutexes s"
    "is_curl_initialized s3 = is_curl_initialized s" "smtp_thread s3 = smtp_thread s"
    using transport_frame(7-9) [of curl None
        "curl_multi_remove_handle h curl (record_call (Curl_multi_info_read h) s)"] g
    by simp_all
  show ?case
    unfolding x
    by (simp add: Let_def g Cons.IH s3)
qed

lemma smtp_consumer_slot_frame:
  "handles_and_mutexes (smtp_consumer_slot env i s) = handles_and_mutexes s"
  "is_curl_initialized (smtp_consumer_slot env i s) = is_curl_initialized s"
  "smtp_thread (smtp_consumer_slot env i s) = smtp_thread s"
proof -
  obtain h held where hi: "handles_and_mutexes s ! i = (h, held)"
    by (cases "handles_and_mutexes s ! i")
  show "handles_and_mutexes (smtp_consumer_slot env i s) = handles_and_mutexes s"
  proof (cases held)
    case True
    then show ?thesis using hi by (simp add: smtp_consumer_slot_def)
  next
    case False
    have "(handles_and_mutexes s)[i := (h, True), i := (h, False)] = handles_and_mutexes s"
      using hi False list_update_id [of "handles_and_mutexes s" i] by simp
    moreover have "fst ((handles_and_mutexes s)[i := (h, True)] ! i) = h"
      by (cases "i < length (handles_and_mutexes s)") (simp_all add: hi list_update_beyond not_less)
    ultimately show ?thesis
      using hi False
      by (simp add: smtp_consumer_slot_def Let_def set_mutex_def drain_completions_frame)
  qed
  show "is_curl_initialized (smtp_consumer_slot env i s) = is_curl_initialized s"
    using hi
    by (simp add: smtp_consumer_slot_def Let_def set_mutex_def drain_completions_frame)
  show "smtp_thread (smtp_consumer_slot env i s) = smtp_thread s"
    using hi
    by (simp add: smtp_consumer_slot_def Let_def set_mutex_def drain_completions_frame)
qed

lemma fold_slots_frame:
  "handles_and_mutexes (fold (\<lambda>i. smtp_consumer_slot (env i) i) slots s) = handles_and_mutexes s"
  "is_curl_initialized (fold (\<lambda>i. smtp_consumer_slot (env i) i) slots s) = is_curl_initialized s"
  "smtp_thread (fold (\<lambda>i. smtp_consumer_slot (env i) i) slots s) = smtp_thread s"
  by (induction slots arbitrary: s; simp add: smtp_consumer_slot_frame)+

lemma smtp_consumer_pass_frame:
  "handles_and_mutexes (smtp_consumer_pass env s) = handles_and_mutexes s"
  "is_curl_initialized (smtp_consumer_pass env s) = is_curl_initialized s"
  "smtp_thread (smtp_consumer_pass env s) = smtp_thread s"
  by (simp_all add: smtp_consumer_pass_def fold_slots_frame)

lemma reap_one:
  assumes live: "easy_handles s c = Some opts"
      and priv: "opts CURLOPT_PRIVATE = Some (Pointer (Some l))"
      and att: "multi_handles s m = Some attached"
  shows "\<exists>s1. drain_completions (Some m) ((CURLMSG_DONE, Some c) # rest) s
                 = drain_completions (Some m) rest s1
           \<and> easy_handles s1 = (easy_handles s)(c := None)
           \<and> slists s1 = (slists s)(l := None)
           \<and> multi_handles s1 = (multi_handles s)(m \<mapsto> removeAll c attached)
           \<and> rcb_heap s1 = rcb_heap s"
proof -
  define s1 where "s1 = record_call (Curl_multi_info_read (Some m)) s"
  define s2 where "s2 = curl_multi_remove_handle (Some m) (Some c) s1"
  define s3 where "s3 = snd (curl_easy_getinfo_private (Some c) None s2)"
  define s4 where "s4 = curl_slist_free_all (Some l) s3"
  define s5 where "s5 = curl_easy_cleanup (Some c) s4"
  have f2: "easy_handles s2 = easy_handles s" "slists s2 = slists s" "rcb_heap s2 = rcb_heap s"
    "multi_handles s2 = (multi_handles s)(m \<mapsto> removeAll c attached)"
    using att by (simp_all add: s2_def s1_def curl_multi_remove_handle_def record_call_def)
  have g: "curl_easy_getinfo_private (Some c) None s2 = (Some l, s3)"
    using live priv f2(1) by (simp add: curl_easy_getinfo_private_def s3_def)
  have f3: "easy_handles s3 = easy_handles s" "slists s3 = slists s" "rcb_heap s3 = rcb_heap s"
    "multi_handles s3 = (multi_handles s)(m \<mapsto> removeAll c attached)"
    using f2 by (simp_all add: s3_def curl_easy_getinfo_private_def record_call_def)
  have f5: "easy_handles s5 = (easy_handles s)(c := None)" "slists s5 = (slists s)(l := None)"
    "rcb_heap s5 = rcb_heap s"
    "multi_handles s5 = (multi_handles s)(m \<mapsto> removeAll c attached)"
    using f3 by (simp_all add: s5_def s4_def curl_easy_cleanup_def curl_slist_free_all_def
        record_call_def)
  have step: "drain_completions (Some m) ((CURLMSG_DONE, Some c) # rest) s
                 = drain_completions (Some m) rest s5"
    by (simp add: Let_def s1_def [symmetric] s2_def [symmetric] g s4_def [symmetric]
          s5_def [symmetric])
  show ?thesis
    using step f5 by blast
qed

lemma both_sends:
  "\<exists>s o1 o2. scenario_sends = Some s
     \<and> rcb_heap s =
         [104 \<mapsto> new_read_callback_message
            (compose_message ''Fri, 30 Oct 2026 12:00:00 +0000'' ''a@example.com''
               ''noreply@example.com'' ''Server'' ''Hello'' ''First''),
          107 \<mapsto> new_read_callback_message
            (compose_message ''Fri, 30 Oct 2026 12:00:00 +0000'' ''b@example.com''
               ''noreply@example.com'' ''Server'' ''Hello'' ''Second'')]
     \<and> slists s = [103 \<mapsto> [''<a@example.com>''], 106 \<mapsto> [''<b@example.com>'']]
     \<and> easy_handles s = [102 \<mapsto> o1, 105 \<mapsto> o2]
     \<and> o1 CURLOPT_PRIVATE = Some (Pointer (Some 103))
     \<and> o2 CURLOPT_PRIVATE = Some (Pointer (Some 106))
     \<and> handles_and_mutexes s = [(Some 100, False), (Some 101, False)]
     \<and> is_curl_initialized s \<and> smtp_thread s
     \<and> multi_handles s = [100 \<mapsto> [102, 105], 101 \<mapsto> []]"
proof -
  obtain s1 o1 where a:
    "smtp_send_email scenario_send_env ''a@example.com'' ''noreply@example.com''
             ''Server'' ''Hello'' ''First'' running_state = Some s1"
    "rcb_heap s1 = [104 \<mapsto> new_read_callback_message
           (compose_message ''Fri, 30 Oct 2026 12:00:00 +0000'' ''a@example.com''
              ''noreply@example.com'' ''Server'' ''Hello'' ''First'')]"
    "slists s1 = [103 \<mapsto> [''<a@example.com>'']]"
    "easy_handles s1 = [102 \<mapsto> o1]"
    "o1 CURLOPT_PRIVATE = Some (Pointer (Some 103))"
    "next_address s1 = 105"
    "handles_and_mutexes s1 = [(Some 100, False), (Some 101, False)]"
    "is_curl_initialized s1" "smtp_thread s1"
    "multi_handles s1 = [100 \<mapsto> [102], 101 \<mapsto> []]"
    using first_send by blast
  have pre: "is_curl_initialized s1" "easy_init_ok scenario_send_env"
    "slist_append_ok scenario_send_env"
    "handles_and_mutexes s1 = (Some 100, False) # [(Some 101, False)]"
    using a(7) a(8) by (simp_all add: scenario_send_env_def)
  obtain s o2 where b:
    "smtp_send_email scenario_send_env ''b@example.com'' ''noreply@example.com''
             ''Server'' ''Hello'' ''Second'' s1 = Some s"
    "rcb_heap s = (rcb_heap s1)(next_address s1 + 2 \<mapsto>
           new_read_callback_message
             (compose_message (date_text scenario_send_env) ''b@example.com''
                ''noreply@example.com'' ''Server'' ''Hello'' ''Second''))"
    "slists s = (slists s1)(next_address s1 + 1 \<mapsto> [''<'' @ ''b@example.com'' @ ''>''])"
    "easy_handles s = (easy_handles s1)(next_address s1 \<mapsto> o2)"
    "o2 CURLOPT_PRIVATE = Some (Pointer (Some (next_address s1 + 1)))"
    "handles_and_mutexes s = handles_and_mutexes s1"
    "is_curl_initialized s" "smtp_thread s = smtp_thread s1"
    "multi_handles s =
          (case (Some 100, Some (next_address s1)) of
             (Some m, Some c) \<Rightarrow>
               (case multi_handles s1 m of
                  Some attached \<Rightarrow>
                    if multi_add_code scenario_send_env = 0
                    then (multi_handles s1)(m \<mapsto> attached @ [c])
                    else multi_handles s1
                | None \<Rightarrow> multi_handles s1)
           | _ \<Rightarrow> multi_handles s1)"
    using smtp_send_email_attached [OF pre, of "''b@example.com''" "''noreply@example.com''"
        "''Server''" "''Hello''" "''Second''"]
    by blast
  have m: "multi_handles s = [100 \<mapsto> [102, 105], 101 \<mapsto> []]"
    unfolding b(9) by (auto simp: a(6) a(10) scenario_send_env_def)
  have r: "scenario_sends = Some s"
    by (simp add: scenario_sends_def a(1) b(1))
  show ?thesis
    using r b(2-8) m a(2-9)
    by (intro exI [of _ s] exI [of _ o1] exI [of _ o2]) (simp add: scenario_send_env_def)
qed

lemma smtp_consumer_slot_free:
  assumes "handles_and_mutexes s ! i = (h, False)"
  shows "smtp_consumer_slot env i s =
           set_mutex i False
             (drain_completions h (finished env)
               (record_call (Curl_multi_perform h)
                 (record_call (Curl_multi_poll h
                      (if reported_timeout env = - 1 then SMTP_TIMEOUT_DEFAULT
                       else reported_timeout env))
                   (record_call (Curl_multi_timeout h) (set_mutex i True s)))))"
  using assms by (simp add: smtp_consumer_slot_def Let_def set_mutex_def record_call_def)

lemma resources_frame [simp]:
  "easy_handles (set_mutex i b s) = easy_handles s"
  "slists (set_mutex i b s) = slists s"
  "multi_handles (set_mutex i b s) = multi_handles s"
  "easy_handles (record_call c s) = easy_handles s"
  "slists (record_call c s) = slists s"
  "multi_handles (record_call c s) = multi_handles s"
  by (simp_all add: set_mutex_def record_call_def)

lemma reaped:
  assumes e: "easy_handles s = [102 \<mapsto> o1, 105 \<mapsto> o2]"
      and p1: "o1 CURLOPT_PRIVATE = Some (Pointer (Some 103))"
      and p2: "o2 CURLOPT_PRIVATE = Some (Pointer (Some 106))"
      and l: "slists s = [103 \<mapsto> l1, 106 \<mapsto> l2]"
      and h: "handles_and_mutexes s = [(Some 100, False), (Some 101, False)]"
      and m: "multi_handles s = [100 \<mapsto> [102, 105], 101 \<mapsto> []]"
  shows "easy_handles (smtp_consumer_pass scenario_poller s) = Map.empty
       \<and> slists (smtp_consumer_pass scenario_poller s) = Map.empty
       \<and> multi_handles (smtp_consumer_pass scenario_poller s) = [100 \<mapsto> [], 101 \<mapsto> []]"
proof -
  define t0 where "t0 = record_call (Curl_multi_perform (Some 100))
                 (record_call (Curl_multi_poll (Some 100) SMTP_TIMEOUT_DEFAULT)
                   (record_call (Curl_multi_timeout (Some 100)) (set_mutex 0 True s)))"
  have t0: "easy_handles t0 = [102 \<mapsto> o1, 105 \<mapsto> o2]"
    "slists t0 = [103 \<mapsto> l1, 106 \<mapsto> l2]"
    "multi_handles t0 = [100 \<mapsto> [102, 105], 101 \<mapsto> []]"
    by (simp_all add: t0_def e l m)
  have a1: "easy_handles t0 102 = Some o1" "multi_handles t0 100 = Some [102, 105]"
    by (simp_all add: t0)
  obtain t1 where t1: "drain_completions (Some 100)
                         ((CURLMSG_DONE, Some 102) # [(CURLMSG_DONE, Some 105)]) t0
                       = drain_completions (Some 100) [(CURLMSG_DONE, Some 105)] t1"
    "easy_handles t1 = (easy_handles t0)(102 := None)"
    "slists t1 = (slists t0)(103 := None)"
    "multi_handles t1 = (multi_handles t0)(100 \<mapsto> removeAll 102 [102, 105])"
    using reap_one [OF a1(1) p1 a1(2), of "[(CURLMSG_DONE, Some 105)]"] by blast
  have a2: "easy_handles t1 105 = Some o2" "multi_handles t1 100 = Some [105]"
    by (simp_all add: t1 t0)
  obtain t2 where t2: "drain_completions (Some 100) ((CURLMSG_DONE, Some 105) # []) t1
                       = drain_completions (Some 100) [] t2"
    "easy_handles t2 = (easy_handles t1)(105 := None)"
    "slists t2 = (slists t1)(106 := None)"
    "multi_handles t2 = (multi_handles t1)(100 \<mapsto> removeAll 105 [105])"
    using reap_one [OF a2(1) p2 a2(2), of "[]"] by blast
  define u0 where "u0 = smtp_consumer_slot (scenario_poller 0) 0 s"
  have h0: "handles_and_mutexes s ! 0 = (Some 100, False)"
    by (simp add: h)
  have u0: "u0 = set_mutex 0 False (record_call (Curl_multi_info_read (Some 100)) t2)"
    unfolding u0_def smtp_consumer_slot_free [OF h0]
    using t1(1) t2(1) by (simp add: scenario_poller_def t0_def)
  have u0e: "easy_handles u0 = Map.empty"
    by (simp add: u0 t2 t1 t0)
  have u0l: "slists u0 = Map.empty"
    by (simp add: u0 t2 t1 t0)
  have u0m: "multi_handles u0 = [100 \<mapsto> [], 101 \<mapsto> []]"
    by (simp add: u0 t2 t1 t0 fun_upd_twist)
  have u0h: "handles_and_mutexes u0 = [(Some 100, False), (Some 101, False)]"
    by (simp add: u0_def smtp_consumer_slot_frame h)
  have h1: "handles_and_mutexes u0 ! 1 = (Some 101, False)"
    by (simp add: u0h)
  define u1 where "u1 = smtp_consumer_slot (scenario_poller 1) 1 u0"
  have u1: "easy_handles u1 = Map.empty" "slists u1 = Map.empty"
    "multi_handles u1 = [100 \<mapsto> [], 101 \<mapsto> []]"
    unfolding u1_def smtp_consumer_slot_free [OF h1]
    by (simp_all add: scenario_poller_def u0e u0l u0m)
  have pass: "smtp_consumer_pass scenario_poller s = u1"
    by (simp add: smtp_consumer_pass_def h u1_def u0_def upt_conv_Cons)
  show ?thesis
    by (simp add: pass u1)
qed

text \<open>
  C2 (the code at the scenario of the spec). After initialization, two submissions, a
  poller pass that reaps both finished transfers, and shutdown, every transfer handle,
  recipient list and multiplexer has been released, but both streaming states obtained
  from \<^verbatim>\<open>xmalloc\<close> are still allocated.
\<close>

theorem streaming_state_leaked:
  "(case scenario_end of
      Inl e \<Rightarrow> False
    | Inr s \<Rightarrow>
        \<not> is_curl_initialized s \<and> \<not> curl_global s
        \<and> easy_handles s = Map.empty \<and> slists s = Map.empty \<and> multi_handles s = Map.empty
        \<and> rcb_heap s =
            [104 \<mapsto> new_read_callback_message
               (compose_message ''Fri, 30 Oct 2026 12:00:00 +0000'' ''a@example.com''
                  ''noreply@example.com'' ''Server'' ''Hello'' ''First''),
             107 \<mapsto> new_read_callback_message
               (compose_message ''Fri, 30 Oct 2026 12:00:00 +0000'' ''b@example.com''
                  ''noreply@example.com'' ''Server'' ''Hello'' ''Second'')])"
proof -
  obtain s2 o1 o2 where a: "scenario_sends = Some s2"
    "rcb_heap s2 =
         [104 \<mapsto> new_read_callback_message
            (compose_message ''Fri, 30 Oct 2026 12:00:00 +0000'' ''a@example.com''
               ''noreply@example.com'' ''Server'' ''Hello'' ''First''),
          107 \<mapsto> new_read_callback_message
            (compose_message ''Fri, 30 Oct 2026 12:00:00 +0000'' ''b@example.com''
               ''noreply@example.com'' ''Server'' ''Hello'' ''Second'')]"
    "slists s2 = [103 \<mapsto> [''<a@example.com>''], 106 \<mapsto> [''<b@example.com>'']]"
    "easy_handles s2 = [102 \<mapsto> o1, 105 \<mapsto> o2]"
    "o1 CURLOPT_PRIVATE = Some (Pointer (Some 103))"
    "o2 CURLOPT_PRIVATE = Some (Pointer (Some 106))"
    "handles_and_mutexes s2 = [(Some 100, False), (Some 101, False)]"
    "is_curl_initialized s2" "smtp_thread s2"
    "multi_handles s2 = [100 \<mapsto> [102, 105], 101 \<mapsto> []]"
    using both_sends by blast
  define s3 where "s3 = smtp_consumer_pass scenario_poller s2"
  have r: "easy_handles s3 = Map.empty" "slists s3 = Map.empty"
    "multi_handles s3 = [100 \<mapsto> [], 101 \<mapsto> []]"
    using reaped [OF a(4) a(5) a(6) a(3) a(7) a(10)] by (simp_all add: s3_def)
  have f: "is_curl_initialized s3" "smtp_thread s3"
    "handles_and_mutexes s3 = [(Some 100, False), (Some 101, False)]"
    "rcb_heap s3 = rcb_heap s2"
    by (simp_all add: s3_def smtp_consumer_pass_frame smtp_consumer_pass_rcb_heap a)
  obtain s4 where c: "smtp_cleanup idle_poller s3 = Inr s4"
    "rcb_heap s4 = rcb_heap s3" "easy_handles s4 = easy_handles s3" "slists s4 = slists s3"
    "\<forall>a. multi_handles s4 a =
        (if Some a \<in> fst ` set (handles_and_mutexes s3) then None else multi_handles s3 a)"
    "\<not> curl_global s4" "\<not> is_curl_initialized s4"
    using smtp_cleanup_frame [OF f(1) f(2), of idle_poller] by blast
  have m4: "multi_handles s4 = Map.empty"
  proof
    fix a
    show "multi_handles s4 a = None"
      using c(5) by (simp add: f(3) r(3))
  qed
  have e: "scenario_end = Inr s4"
    by (simp add: scenario_end_def a(1) s3_def [symmetric] c(1))
  show ?thesis
    by (simp add: e c m4 r f(4) a(2))
qed

subsection \<open>The streaming read to its end\<close>

theorem streaming_read_counterexample:
  "fst (transport_reads [(1, 65536), (1, 65536)] (new_read_callback_message ''ab''))
     = [''ab'' @ [NUL]]
   \<and> concat [''ab'' @ [NUL]] \<noteq> ''ab''
   \<and> fst (transport_reads [(1, 1), (1, 1), (1, 1), (1, 1)] (new_read_callback_message ''ab''))
     = [''a'', ''a'', ''a'']
   \<and> concat [''a'', ''a'', ''a''] \<noteq> ''ab''"
  by (simp add: new_read_callback_message_def read_callback_def memcpy_def c_str_def Let_def
          word_le_nat_alt)

text \<open>
  C1 (as amended). For a composed message of length \<open>L\<close> wrapped in a streaming state with
  \<open>L + 1\<close> bytes remaining, and any sequence of read-callback invocations with non-zero
  buffer capacities, the callback returns 0 after at most \<open>L + 2\<close> calls; a call returns 0
  exactly when no bytes remain; the chunks of the calls before it are non-empty and hold
  \<open>L + 1\<close> bytes together; and when the first buffer has room for \<open>L + 1\<close> bytes the chunks
  are the single chunk made of the composed message followed by its terminating NUL byte.
\<close>

theorem streaming_read_to_end:
  assumes len: "length msg + 1 < 2 ^ 64"
      and pos: "\<forall>(sz, nitems) \<in> set caps. sz * nitems \<noteq> 0"
      and enough: "length msg + 2 \<le> length caps"
  shows "\<exists>chunks m'.
           transport_reads caps (new_read_callback_message msg) = (chunks, True, m')
         \<and> bytes_remaining m' = 0
         \<and> length chunks \<le> length msg + 1
         \<and> [] \<notin> set chunks
         \<and> length (concat chunks) = length msg + 1
         \<and> (length msg + 1 \<le> unat (fst (hd caps) * snd (hd caps)) \<longrightarrow>
               chunks = [msg @ [NUL]])
         \<and> (\<forall>buffer sz nitems m. sz * nitems \<noteq> 0 \<longrightarrow>
               (fst (read_callback buffer sz nitems m) = 0) = (bytes_remaining m = 0))"
proof -
  let ?m = "new_read_callback_message msg"
  note r = new_rcb_remaining [OF len]
  have p2: "unat (bytes_remaining ?m) < length caps"
    using r enough by simp
  have p3: "unat (bytes_remaining ?m) \<le> length (message ?m) + 1"
    using r by (simp add: new_read_callback_message_def)
  obtain chunks m' where d: "transport_reads caps ?m = (chunks, True, m')"
    "bytes_remaining m' = 0" "length chunks \<le> unat (bytes_remaining ?m)"
    "[] \<notin> set chunks" "length (concat chunks) = unat (bytes_remaining ?m)"
    using transport_reads_drain [OF pos p2 p3] by blast
  have single: "chunks = [msg @ [NUL]]"
    if big: "length msg + 1 \<le> unat (fst (hd caps) * snd (hd caps))"
  proof -
    obtain sz nitems sz' nitems' rest where c: "caps = (sz, nitems) # (sz', nitems') # rest"
      using enough by (cases caps; cases "tl caps") auto
    have pos': "sz' * nitems' \<noteq> 0"
      using pos c by auto
    have big': "length msg + 1 \<le> unat (sz * nitems)"
      using big c by simp
    obtain m'' where "transport_reads caps ?m = ([msg @ [NUL]], True, m'')"
      using transport_reads_single [OF len big' pos', of rest] c by blast
    with d(1) show ?thesis by simp
  qed
  have zero: "\<forall>buffer sz nitems m. sz * nitems \<noteq> 0 \<longrightarrow>
               (fst (read_callback buffer sz nitems m) = 0) = (bytes_remaining m = 0)"
    using read_callback_zero by blast
  show ?thesis
    using d r single zero by (intro exI [of _ chunks] exI [of _ m']) simp
qed

theorem streaming_read_to_end_witness:
  "length ''ab'' + 1 < (2::nat) ^ 64
   \<and> length ''ab'' + 2 \<le> length [(1::size_t, 1::size_t), (1, 1), (1, 1), (1, 1)]
   \<and> transport_reads [(1, 1), (1, 1), (1, 1), (1, 1)] (new_read_callback_message ''ab'')
       = ([''a'', ''a'', ''a''], True, \<lparr>message = ''ab'', bytes_remaining = 0\<rparr>)
   \<and> length (concat [''a'', ''a'', ''a'']) = length ''ab'' + 1
   \<and> length ''ab'' + 1 \<le> unat ((1::size_t) * 65536)
   \<and> fst (transport_reads [(1, 65536), (1, 65536), (1, 65536), (1, 65536)]
             (new_read_callback_message ''ab''))
       = [''ab'' @ [NUL]]"
proof -
  have l: "length ''ab'' + 1 < (2::nat) ^ 64" by simp
  have p1: "\<forall>(sz, nitems) \<in> set [(1::size_t, 1::size_t), (1, 1), (1, 1), (1, 1)]. sz * nitems \<noteq> 0"
    by simp
  have e1: "length ''ab'' + 2 \<le> length [(1::size_t, 1::size_t), (1, 1), (1, 1), (1, 1)]"
    by simp
  have p2: "\<forall>(sz, nitems) \<in> set [(1::size_t, 65536::size_t), (1, 65536), (1, 65536), (1, 65536)].
               sz * nitems \<noteq> 0"
    by simp
  have e2: "length ''ab'' + 2 \<le> length [(1::size_t, 65536::size_t), (1, 65536), (1, 65536), (1, 65536)]"
    by simp
  have b: "length ''ab'' + 1 \<le> unat ((1::size_t) * 65536)" by simp
  have r1: "transport_reads [(1, 1), (1, 1), (1, 1), (1, 1)] (new_read_callback_message ''ab'')
       = ([''a'', ''a'', ''a''], True, \<lparr>message = ''ab'', bytes_remaining = 0\<rparr>)"
    by (simp add: new_read_callback_message_def read_callback_def memcpy_def c_str_def Let_def
          word_le_nat_alt)
  from streaming_read_to_end [OF l p1 e1] r1
  have w1: "length (concat [''a'', ''a'', ''a'']) = length ''ab'' + 1"
    by auto
  from streaming_read_to_end [OF l p2 e2] b
  have w2: "fst (transport_reads [(1, 65536), (1, 65536), (1, 65536), (1, 65536)]
             (new_read_callback_message ''ab''))
       = [''ab'' @ [NUL]]"
    by auto
  show ?thesis
    using l e1 r1 w1 b w2 by simp
qed

subsection \<open>What holds in every reachable state\<close>

lemma state_inv_frame:
  "handles_and_mutexes s' = handles_and_mutexes s \<Longrightarrow> smtp_thread s' = smtp_thread s
     \<Longrightarrow> is_curl_initialized s' = is_curl_initialized s \<Longrightarrow> state_inv s' = state_inv s"
  by (simp add: state_inv_def)

lemma state_inv_slots:
  "state_inv s \<Longrightarrow> \<exists>h0 h1. handles_and_mutexes s = [(h0, False), (h1, False)]"
proof -
  assume "state_inv s"
  then have m: "map snd (handles_and_mutexes s) = [False, False]"
    by (simp add: state_inv_def)
  then obtain x y where xy: "handles_and_mutexes s = [x, y]"
    by (cases "handles_and_mutexes s"; cases "tl (handles_and_mutexes s)") auto
  with m show ?thesis
    by (cases x; cases y) auto
qed

lemma init_slots_frame:
  "map snd (handles_and_mutexes (snd (init_slots ok slots s))) = map snd (handles_and_mutexes s)
   \<and> is_curl_initialized (snd (init_slots ok slots s)) = is_curl_initialized s"
proof (induction slots arbitrary: s)
  case Nil
  show ?case by simp
next
  case (Cons i slots)
  have u: "map snd (xs[i := (h, snd (xs ! i))]) = map snd xs" for xs :: "(ptr \<times> bool) list" and h
    by (cases "i < length xs") (simp_all add: map_update list_update_same_conv list_update_beyond)
  show ?case
    by (simp add: Cons.IH curl_multi_init_def Let_def record_call_def eventlog_def u
          split: prod.splits)
qed

lemma smtp_init_inv:
  assumes inv: "state_inv s"
  shows "\<exists>r s'. smtp_init env ca url port user pw s = Inr (r, s') \<and> state_inv s'"
proof (cases "is_curl_initialized s")
  case True
  then show ?thesis
    using inv by (auto simp: smtp_init_def eventlog_def state_inv_def)
next
  case False
  obtain ok s1 where c: "smtp_config ca url port user pw s = (ok, s1)"
    by (cases "smtp_config ca url port user pw s")
  have s1: "handles_and_mutexes s1 = handles_and_mutexes s" "smtp_thread s1 = smtp_thread s"
    "is_curl_initialized s1 = is_curl_initialized s"
    using c by (auto simp: smtp_config_def eventlog_def split: option.splits if_splits)
  obtain b s2
    where sl: "init_slots (multi_init_ok env) [0..<length (handles_and_mutexes s1)] s1 = (b, s2)"
    by (cases "init_slots (multi_init_ok env) [0..<length (handles_and_mutexes s1)] s1")
  have s2: "map snd (handles_and_mutexes s2) = map snd (handles_and_mutexes s)"
    "is_curl_initialized s2 = is_curl_initialized s" "smtp_thread s2 = smtp_thread s"
    using init_slots_frame [of "multi_init_ok env" "[0..<length (handles_and_mutexes s1)]" s1]
      init_slots_thread [of "multi_init_ok env" "[0..<length (handles_and_mutexes s1)]" s1]
      sl s1 by simp_all
  have t2: "\<not> smtp_thread s2" "\<not> is_curl_initialized s2"
    using s2 inv False by (simp_all add: state_inv_def)
  show ?thesis
  proof (cases ok)
    case False
    then show ?thesis
      using \<open>\<not> is_curl_initialized s\<close> c s1 inv
      by (auto simp: smtp_init_def eventlog_def state_inv_def)
  next
    case True
    show ?thesis
      using \<open>\<not> is_curl_initialized s\<close> c True sl s2 t2 inv
      by (cases b)
         (auto simp: smtp_init_def curl_global_init_def thread_start_def record_call_def
            eventlog_def state_inv_def)
  qed
qed

lemma smtp_reconfig_inv:
  "state_inv (snd (smtp_reconfig ca url port user pw s)) = state_inv s"
  by (auto simp: smtp_reconfig_def smtp_config_def eventlog_def state_inv_def
        split: option.splits)

lemma smtp_consumer_pass_inv:
  "state_inv (smtp_consumer_pass env s) = state_inv s"
  by (simp add: state_inv_def smtp_consumer_pass_frame)

lemma smtp_cleanup_inv:
  assumes inv: "state_inv s"
  shows "\<exists>s'. smtp_cleanup env s = Inr s' \<and> state_inv s' \<and> \<not> is_curl_initialized s'"
proof (cases "is_curl_initialized s")
  case False
  then show ?thesis using inv by (simp add: smtp_cleanup_def)
next
  case True
  then have t: "smtp_thread s" using inv by (simp add: state_inv_def)
  define s1 where "s1 = record_call (Store_is_curl_initialized False) (s\<lparr>is_curl_initialized := False\<rparr>)"
  have f1: "\<not> is_curl_initialized s1" and t1: "smtp_thread s1"
    using t by (simp_all add: s1_def record_call_def)
  define s2 where "s2 = record_call Thread_join (s1\<lparr>smtp_thread := False\<rparr>)"
  have j: "thread_join env s1 = Inr s2"
    using t1 by (simp add: thread_join_def smtp_consumer_stopped [OF f1] s2_def)
  have fr: "handles_and_mutexes (fold (\<lambda>slot. curl_multi_cleanup (fst slot)) slots u)
              = handles_and_mutexes u
          \<and> is_curl_initialized (fold (\<lambda>slot. curl_multi_cleanup (fst slot)) slots u)
              = is_curl_initialized u
          \<and> smtp_thread (fold (\<lambda>slot. curl_multi_cleanup (fst slot)) slots u) = smtp_thread u"
    for slots u
    by (induction slots arbitrary: u)
       (simp_all add: curl_multi_cleanup_def record_call_def split: option.splits)
  have r: "smtp_cleanup env s = Inr (curl_global_cleanup
             (fold (\<lambda>slot. curl_multi_cleanup (fst slot)) (handles_and_mutexes s2) s2))"
    using True j by (simp add: smtp_cleanup_def s1_def [symmetric])
  have s2: "handles_and_mutexes s2 = handles_and_mutexes s" "\<not> is_curl_initialized s2"
    "\<not> smtp_thread s2"
    by (simp_all add: s2_def s1_def record_call_def)
  show ?thesis
    unfolding r using inv s2
    by (simp add: curl_global_cleanup_def record_call_def fr state_inv_def)
qed

lemma send_easy_failure:
  assumes f: "is_curl_initialized s" and e: "\<not> easy_init_ok env"
  shows "smtp_send_email env to_address from_address from_name subject msg s =
           Some (eventlog eventlog_level_error ''smtp_send_email''
                   ''Failed to initialize CURL easy handle'' [] (record_call Curl_easy_init s))"
  using f e by (simp add: smtp_send_email_def curl_easy_init_def)

lemma send_slist_failure:
  assumes f: "is_curl_initialized s"
      and e: "easy_init_ok env" and l: "\<not> slist_append_ok env"
  shows "\<exists>s'. smtp_send_email env to_address from_address from_name subject msg s = Some s'
           \<and> handles_and_mutexes s' = handles_and_mutexes s
           \<and> is_curl_initialized s' = is_curl_initialized s
           \<and> smtp_thread s' = smtp_thread s
           \<and> easy_handles s' (next_address s) \<noteq> None
           \<and> multi_handles s' = multi_handles s"
proof -
  define a where "a = next_address s"
  define curl where "curl = Some a"
  define s1 where "s1 = snd (curl_easy_init True s)"
  define s2 where "s2 = curl_easy_setopt curl CURLOPT_USE_SSL (Long CURLUSESSL_ALL) s1"
  define s3 where "s3 = curl_easy_setopt curl CURLOPT_CAINFO (Str (smtp_ca_cert_store s2)) s2"
  define s4 where "s4 = curl_easy_setopt curl CURLOPT_URL (Str (smtp_server_url s3)) s3"
  define s5 where "s5 = curl_easy_setopt curl CURLOPT_PORT (Long (smtp_port s4)) s4"
  define s6 where "s6 = curl_easy_setopt curl CURLOPT_USERNAME (Str (smtp_username s5)) s5"
  define s7 where "s7 = curl_easy_setopt curl CURLOPT_PASSWORD (Str (smtp_password s6)) s6"
  define s8 where "s8 = curl_easy_setopt curl CURLOPT_MAIL_FROM
                           (Str (fmt_format ''<{}>'' [from_address])) s7"
  define s9 where "s9 = record_call Curl_slist_append s8"
  have i1: "curl_easy_init (easy_init_ok env) s = (curl, s1)"
    using e by (simp add: curl_easy_init_def s1_def curl_def a_def)
  have i9: "curl_slist_append (slist_append_ok env) (fmt_format ''<{}>'' [to_address]) s8
              = (None, s9)"
    using l by (simp add: curl_slist_append_def s9_def)
  have main: "smtp_send_email env to_address from_address from_name subject msg s
         = Some (eventlog eventlog_level_error ''smtp_send_email''
                   ''Failed to append recipient address to recipient list'' [] s9)"
    using f
    by (simp only: smtp_send_email_def i1 s2_def [symmetric] s3_def [symmetric]
          s4_def [symmetric] s5_def [symmetric] s6_def [symmetric] s7_def [symmetric]
          s8_def [symmetric] i9 Let_def prod.case)
       (simp add: curl_def)
  have fr1: "handles_and_mutexes s1 = handles_and_mutexes s"
    "multi_handles s1 = multi_handles s"
    "is_curl_initialized s1 = is_curl_initialized s"
    "easy_handles s1 = (easy_handles s)(a \<mapsto> Map.empty)"
    "smtp_thread s1 = smtp_thread s"
    by (simp_all add: s1_def curl_easy_init_def record_call_def a_def)
  have fr8: "handles_and_mutexes s8 = handles_and_mutexes s" "multi_handles s8 = multi_handles s"
    "is_curl_initialized s8 = is_curl_initialized s" "smtp_thread s8 = smtp_thread s"
    by (simp_all add: s8_def s7_def s6_def s5_def s4_def s3_def s2_def fr1)
  obtain o2 where e2: "easy_handles s2 = (easy_handles s)(a \<mapsto> o2)"
    using setopt_easy_keep [OF fr1(4)] unfolding s2_def curl_def by blast
  obtain o3 where e3: "easy_handles s3 = (easy_handles s)(a \<mapsto> o3)"
    using setopt_easy_keep [OF e2] unfolding s3_def curl_def by blast
  obtain o4 where e4: "easy_handles s4 = (easy_handles s)(a \<mapsto> o4)"
    using setopt_easy_keep [OF e3] unfolding s4_def curl_def by blast
  obtain o5 where e5: "easy_handles s5 = (easy_handles s)(a \<mapsto> o5)"
    using setopt_easy_keep [OF e4] unfolding s5_def curl_def by blast
  obtain o6 where e6: "easy_handles s6 = (easy_handles s)(a \<mapsto> o6)"
    using setopt_easy_keep [OF e5] unfolding s6_def curl_def by blast
  obtain o7 where e7: "easy_handles s7 = (easy_handles s)(a \<mapsto> o7)"
    using setopt_easy_keep [OF e6] unfolding s7_def curl_def by blast
  obtain o8 where e8: "easy_handles s8 = (easy_handles s)(a \<mapsto> o8)"
    using setopt_easy_keep [OF e7] unfolding s8_def curl_def by blast
  show ?thesis
    unfolding main
    by (simp add: eventlog_def s9_def record_call_def fr8 e8 a_def [symmetric])
qed

lemma smtp_send_email_inv:
  assumes inv: "state_inv s"
  shows "\<exists>s'. smtp_send_email env to_address from_address from_name subject msg s = Some s'
           \<and> state_inv s'"
proof (cases "is_curl_initialized s")
  case False
  then show ?thesis
    using inv by (simp add: smtp_send_email_def eventlog_def state_inv_def)
next
  case f: True
  show ?thesis
  proof (cases "easy_init_ok env")
    case False
    show ?thesis
      unfolding send_easy_failure [OF f False]
      using inv by (simp add: eventlog_def record_call_def state_inv_def)
  next
    case e: True
    show ?thesis
    proof (cases "slist_append_ok env")
      case False
      obtain s' where "smtp_send_email env to_address from_address from_name subject msg s = Some s'"
        "handles_and_mutexes s' = handles_and_mutexes s"
        "is_curl_initialized s' = is_curl_initialized s" "smtp_thread s' = smtp_thread s"
        using send_slist_failure [OF f e False, of to_address from_address from_name subject msg]
        by blast
      then show ?thesis
        using inv state_inv_frame [of s' s] by simp
    next
      case l: True
      obtain h0 h1 where h: "handles_and_mutexes s = (h0, False) # [(h1, False)]"
        using state_inv_slots [OF inv] by auto
      obtain s' where "smtp_send_email env to_address from_address from_name subject msg s = Some s'"
        "handles_and_mutexes s' = handles_and_mutexes s"
        "is_curl_initialized s'" "smtp_thread s' = smtp_thread s"
        using smtp_send_email_attached [OF f e l h, of to_address from_address from_name subject msg]
        by blast
      then show ?thesis
        using inv f state_inv_frame [of s' s] by simp
    qed
  qed
qed

lemma reachable_inv: "reachable s \<Longrightarrow> state_inv s"
proof (induction rule: reachable.induct)
  case start
  show ?case by (simp add: state_inv_def initial_state_def)
next
  case (init s env ca url port user pw r s')
  then show ?case
    using smtp_init_inv [of s env ca url port user pw] by auto
next
  case (reconfig s ca url port user pw r s')
  then show ?case
    using smtp_reconfig_inv [of ca url port user pw s] by simp
next
  case (send s senv to_address from_address from_name subject msg s')
  then show ?case
    using smtp_send_email_inv [of s senv to_address from_address from_name subject msg] by auto
next
  case (poll s penv)
  then show ?case by (simp add: smtp_consumer_pass_inv)
next
  case (cleanup s jenv s')
  then show ?case
    using smtp_cleanup_inv [of s jenv] by auto
qed

lemma smtp_consumer_returns:
  assumes "smtp_consumer env k s = Some s'"
  shows "\<not> is_curl_initialized s"
proof (rule smtp_consumer.raw_induct
    [where P = "\<lambda>env k s y. \<not> is_curl_initialized s", OF _ assms])
  fix f :: "(nat \<Rightarrow> nat \<Rightarrow> slot_env) \<Rightarrow> nat \<Rightarrow> smtp_state \<Rightarrow> smtp_state option"
    and env k s y
  assume ih: "\<And>e j t z. f e j t = Some z \<Longrightarrow> \<not> is_curl_initialized t"
    and eq: "(if is_curl_initialized s
              then f env (Suc k) (smtp_consumer_pass (env k) s) else Some s) = Some y"
  show "\<not> is_curl_initialized s"
  proof
    assume flag: "is_curl_initialized s"
    with eq have "f env (Suc k) (smtp_consumer_pass (env k) s) = Some y"
      by simp
    from ih [OF this] flag show False
      by (simp add: smtp_consumer_pass_frame)
  qed
qed

lemma thread_join_blocks:
  "is_curl_initialized s \<Longrightarrow> smtp_thread s \<Longrightarrow> thread_join env s = Inl Never_returns"
  using smtp_consumer_returns [of env 0 s]
  by (cases "smtp_consumer env 0 s") (auto simp: thread_join_def)

subsection \<open>The composed message\<close>

lemma compose_message_eq:
  "compose_message date to_address from_address from_name subject msg =
     ''MIME-Version: 1.0'' @ CRLF @
     ''Content-Type: text/plain; charset='' @ DQUOTE @ ''UTF-8'' @ DQUOTE @ CRLF @
     ''Date: '' @ date @ CRLF @
     ''From: '' @ from_name @ '' <'' @ from_address @ ''>'' @ CRLF @
     ''To: <'' @ to_address @ ''>'' @ CRLF @
     ''Subject: '' @ subject @ CRLF @ CRLF @ msg"
  by (simp add: compose_message_def fmt_format_def header_format_def CRLF_def DQUOTE_def)

theorem composed_headers_counterexample:
  "compose_message ''Fri, 30 Oct 2026 12:00:00 +0000'' ''to@example.com'' ''from@example.com''
       ''Server'' ''Hello'' ''Body''
     = ''MIME-Version: 1.0'' @ CRLF @
       ''Content-Type: text/plain; charset='' @ DQUOTE @ ''UTF-8'' @ DQUOTE @ CRLF @
       ''Date: Fri, 30 Oct 2026 12:00:00 +0000'' @ CRLF @
       ''From: Server <from@example.com>'' @ CRLF @
       ''To: <to@example.com>'' @ CRLF @
       ''Subject: Hello'' @ CRLF @ CRLF @ ''Body''
   \<and> spec_compose_message ''Fri, 30 Oct 2026 12:00:00 +0000'' ''to@example.com''
       ''from@example.com'' ''Server'' ''Hello'' ''Body''
     = ''MIME-Version: 1.0'' @ CRLF @
       ''Content-Type: text/plain; charset=UTF-8'' @ CRLF @
       ''Date: Fri, 30 Oct 2026 12:00:00 +0000'' @ CRLF @
       ''From: '' @ DQUOTE @ ''Server'' @ DQUOTE @ '' <from@example.com>'' @ CRLF @
       ''To: <to@example.com>'' @ CRLF @
       ''Subject: Hello'' @ CRLF @ CRLF @ ''Body''
   \<and> compose_message ''Fri, 30 Oct 2026 12:00:00 +0000'' ''to@example.com'' ''from@example.com''
       ''Server'' ''Hello'' ''Body''
     \<noteq> spec_compose_message ''Fri, 30 Oct 2026 12:00:00 +0000'' ''to@example.com''
         ''from@example.com'' ''Server'' ''Hello'' ''Body''"
  by (simp add: compose_message_def fmt_format_def header_format_def spec_compose_message_def
        CRLF_def DQUOTE_def)

text \<open>
  C3 (as amended). The text that \<^verbatim>\<open>smtp_send_email\<close> prepends to the body is exactly:
  \<^verbatim>\<open>MIME-Version: 1.0\<close>; \<^verbatim>\<open>Content-Type: text/plain; charset="UTF-8"\<close> with the charset in
  double quotes; \<^verbatim>\<open>Date:\<close> and the rendered local time; \<^verbatim>\<open>From:\<close>, the display name as
  given, without quotes, a space and the sender address in angle brackets; \<^verbatim>\<open>To:\<close> and
  the recipient address in angle brackets; \<^verbatim>\<open>Subject:\<close> and the subject; each line ended
  by CR LF, and one empty line before the body. Every submission that reaches
  composition stores this text in its streaming state.
\<close>

theorem composed_headers:
  "compose_message date to_address from_address from_name subject msg =
     ''MIME-Version: 1.0'' @ CRLF @
     ''Content-Type: text/plain; charset='' @ DQUOTE @ ''UTF-8'' @ DQUOTE @ CRLF @
     ''Date: '' @ date @ CRLF @
     ''From: '' @ from_name @ '' <'' @ from_address @ ''>'' @ CRLF @
     ''To: <'' @ to_address @ ''>'' @ CRLF @
     ''Subject: '' @ subject @ CRLF @ CRLF @ msg
   \<and> (reachable s \<and> is_curl_initialized s \<and> easy_init_ok env \<and> slist_append_ok env
        \<longrightarrow>
        (\<exists>s'. smtp_send_email env to_address from_address from_name subject msg s = Some s'
           \<and> rcb_heap s' (next_address s + 2) =
               Some (new_read_callback_message
                 (compose_message (date_text env) to_address from_address from_name subject msg))))"
proof -
  have sent: "\<exists>s'. smtp_send_email env to_address from_address from_name subject msg s = Some s'
           \<and> rcb_heap s' (next_address s + 2) =
               Some (new_read_callback_message
                 (compose_message (date_text env) to_address from_address from_name subject msg))"
    if r: "reachable s" and pre: "is_curl_initialized s" "easy_init_ok env" "slist_append_ok env"
  proof -
    obtain h0 h1 where h: "handles_and_mutexes s = (h0, False) # [(h1, False)]"
      using state_inv_slots [OF reachable_inv [OF r]] by auto
    obtain s' where
      "smtp_send_email env to_address from_address from_name subject msg s = Some s'"
      "rcb_heap s' = (rcb_heap s)(next_address s + 2 \<mapsto>
           new_read_callback_message
             (compose_message (date_text env) to_address from_address from_name subject msg))"
      using smtp_send_email_attached [OF pre h, of to_address from_address from_name subject msg]
      by blast
    then show ?thesis by simp
  qed
  show ?thesis
    using compose_message_eq sent by blast
qed

theorem composed_headers_witness:
  "reachable running_state \<and> is_curl_initialized running_state
   \<and> easy_init_ok scenario_send_env \<and> slist_append_ok scenario_send_env
   \<and> (case smtp_send_email scenario_send_env ''to@example.com'' ''from@example.com''
              ''Server'' ''Hello'' ''Body'' running_state of
         None \<Rightarrow> False
       | Some s' \<Rightarrow>
           rcb_heap s' 104 =
             Some \<lparr>message =
                     ''MIME-Version: 1.0'' @ CRLF @
                     ''Content-Type: text/plain; charset='' @ DQUOTE @ ''UTF-8'' @ DQUOTE @ CRLF @
                     ''Date: Fri, 30 Oct 2026 12:00:00 +0000'' @ CRLF @
                     ''From: Server <from@example.com>'' @ CRLF @
                     ''To: <to@example.com>'' @ CRLF @
                     ''Subject: Hello'' @ CRLF @ CRLF @ ''Body'',
                   bytes_remaining = 179\<rparr>)"
proof -
  have pre: "reachable running_state \<and> is_curl_initialized running_state
   \<and> easy_init_ok scenario_send_env \<and> slist_append_ok scenario_send_env"
    using reachable.init [OF reachable.start scenario_init]
    by (simp add: running_state_eq scenario_send_env_def)
  have n: "next_address running_state + 2 = 104"
    by (simp add: running_state_eq)
  have d: "date_text scenario_send_env = ''Fri, 30 Oct 2026 12:00:00 +0000''"
    by (simp add: scenario_send_env_def)
  note w = composed_headers [where s = running_state and env = scenario_send_env
      and to_address = "''to@example.com''" and from_address = "''from@example.com''"
      and from_name = "''Server''" and subject = "''Hello''" and msg = "''Body''"
      and date = "''Fri, 30 Oct 2026 12:00:00 +0000''"]
  from w pre obtain s' where
    s: "smtp_send_email scenario_send_env ''to@example.com'' ''from@example.com''
              ''Server'' ''Hello'' ''Body'' running_state = Some s'"
    and r: "rcb_heap s' (next_address running_state + 2) =
               Some (new_read_callback_message
                 (compose_message (date_text scenario_send_env) ''to@example.com''
                    ''from@example.com'' ''Server'' ''Hello'' ''Body''))"
    by blast
  have c: "compose_message ''Fri, 30 Oct 2026 12:00:00 +0000'' ''to@example.com''
                    ''from@example.com'' ''Server'' ''Hello'' ''Body'' =
                     ''MIME-Version: 1.0'' @ CRLF @
                     ''Content-Type: text/plain; charset='' @ DQUOTE @ ''UTF-8'' @ DQUOTE @ CRLF @
                     ''Date: Fri, 30 Oct 2026 12:00:00 +0000'' @ CRLF @
                     ''From: Server <from@example.com>'' @ CRLF @
                     ''To: <to@example.com>'' @ CRLF @
                     ''Subject: Hello'' @ CRLF @ CRLF @ ''Body''"
    using w by simp
  have "rcb_heap s' 104 = Some \<lparr>message =
                     ''MIME-Version: 1.0'' @ CRLF @
                     ''Content-Type: text/plain; charset='' @ DQUOTE @ ''UTF-8'' @ DQUOTE @ CRLF @
                     ''Date: Fri, 30 Oct 2026 12:00:00 +0000'' @ CRLF @
                     ''From: Server <from@example.com>'' @ CRLF @
                     ''To: <to@example.com>'' @ CRLF @
                     ''Subject: Hello'' @ CRLF @ CRLF @ ''Body'',
                   bytes_remaining = 179\<rparr>"
    using r unfolding n d c
    by (simp add: new_read_callback_message_def CRLF_def DQUOTE_def)
  then show ?thesis
    using pre s by simp
qed


subsection \<open>Configuration and shutdown\<close>

theorem config_validation_counterexample:
  "args_valid (Some ''/other.pem'') (Some ''other.example.com'') 25 (Some ''u2'') (Some ''p2'')
   \<and> smtp_init scenario_init_env (Some ''/other.pem'') (Some ''other.example.com'') 25
        (Some ''u2'') (Some ''p2'') running_state
       = Inr (False, running_state\<lparr>eventlog_sink :=
                [(eventlog_level_error, ''smtp_init'',
                  ''libcurl has already been initialized'', [])]\<rparr>)
   \<and> config_of (running_state\<lparr>eventlog_sink :=
                [(eventlog_level_error, ''smtp_init'',
                  ''libcurl has already been initialized'', [])]\<rparr>)
       = (''/ca.pem'', ''smtps://mail.example.com'', 587, ''user'', ''pw'')
   \<and> config_of (running_state\<lparr>eventlog_sink :=
                [(eventlog_level_error, ''smtp_init'',
                  ''libcurl has already been initialized'', [])]\<rparr>)
       \<noteq> (''/other.pem'', ''smtps://other.example.com'', 25, ''u2'', ''p2'')"
  by (simp add: args_valid_def running_state_eq smtp_init_def eventlog_def config_of_def)

text \<open>
  C4 (as amended). A call of \<^verbatim>\<open>smtp_init\<close> or \<^verbatim>\<open>smtp_reconfig\<close> with a missing string or a
  port above 65535 returns failure and leaves the stored configuration unchanged. With
  all strings present and the port at most 65535, \<^verbatim>\<open>smtp_reconfig\<close> succeeds and stores
  the new configuration, and so does every \<^verbatim>\<open>smtp_init\<close> that is made while the
  initialization flag is false, in any reachable state: the configuration is stored
  before the allocations that may still make that call fail.
\<close>

theorem config_validation:
  "(\<not> args_valid ca url port user pw \<longrightarrow>
      fst (smtp_reconfig ca url port user pw s) = False
      \<and> config_of (snd (smtp_reconfig ca url port user pw s)) = config_of s
      \<and> (\<exists>s'. smtp_init env ca url port user pw s = Inr (False, s')
                \<and> config_of s' = config_of s))
   \<and> (port' \<le> 65535 \<longrightarrow>
      fst (smtp_reconfig (Some ca') (Some host) port' (Some username) (Some password) s) = True
      \<and> config_of (snd (smtp_reconfig (Some ca') (Some host) port' (Some username) (Some password) s))
          = (ca', snprintf 512 (''smtps://'' @ host), uint port', username, password)
      \<and> (reachable s \<and> \<not> is_curl_initialized s \<longrightarrow>
            (\<exists>r s'. smtp_init env (Some ca') (Some host) port' (Some username) (Some password) s
                       = Inr (r, s')
                 \<and> config_of s'
                     = (ca', snprintf 512 (''smtps://'' @ host), uint port', username, password))))"
proof -
  have a: "\<not> args_valid ca url port user pw \<longrightarrow>
      fst (smtp_reconfig ca url port user pw s) = False
      \<and> config_of (snd (smtp_reconfig ca url port user pw s)) = config_of s
      \<and> (\<exists>s'. smtp_init env ca url port user pw s = Inr (False, s')
                \<and> config_of s' = config_of s)"
    using smtp_config_invalid [of ca url port user pw s]
          smtp_init_invalid [of ca url port user pw env s]
    by (simp add: smtp_reconfig_def)
  have b: "port' \<le> 65535 \<longrightarrow>
      fst (smtp_reconfig (Some ca') (Some host) port' (Some username) (Some password) s) = True
      \<and> config_of (snd (smtp_reconfig (Some ca') (Some host) port' (Some username) (Some password) s))
          = (ca', snprintf 512 (''smtps://'' @ host), uint port', username, password)"
    by (simp add: smtp_reconfig_def smtp_config_valid config_of_def)
  have c: "\<exists>r s'. smtp_init env (Some ca') (Some host) port' (Some username) (Some password) s
                       = Inr (r, s')
                 \<and> config_of s'
                     = (ca', snprintf 512 (''smtps://'' @ host), uint port', username, password)"
    if p: "port' \<le> 65535" and r: "reachable s" and f: "\<not> is_curl_initialized s"
  proof -
    have "\<not> smtp_thread s"
      using reachable_inv [OF r] f by (simp add: state_inv_def)
    then show ?thesis
      using smtp_init_valid [OF p f, of env ca' host username password] by blast
  qed
  show ?thesis
    using a b c by blast
qed

theorem config_validation_witness:
  "\<not> args_valid (Some ''/ca.pem'') (Some ''mail.example.com'') 70000 (Some ''user'') (Some ''pw'')
   \<and> fst (smtp_reconfig (Some ''/ca.pem'') (Some ''mail.example.com'') 70000 (Some ''user'')
            (Some ''pw'') running_state) = False
   \<and> config_of (snd (smtp_reconfig (Some ''/ca.pem'') (Some ''mail.example.com'') 70000
                      (Some ''user'') (Some ''pw'') running_state))
       = config_of running_state
   \<and> (587::uint) \<le> 65535
   \<and> reachable initial_state \<and> \<not> is_curl_initialized initial_state
   \<and> config_of (snd (smtp_reconfig (Some ''/ca.pem'') (Some ''mail.example.com'') 587
                      (Some ''user'') (Some ''pw'') initial_state))
       = (''/ca.pem'', ''smtps://mail.example.com'', 587, ''user'', ''pw'')
   \<and> smtp_init scenario_init_env (Some ''/ca.pem'') (Some ''mail.example.com'') 587
        (Some ''user'') (Some ''pw'') initial_state = Inr (True, running_state)
   \<and> config_of running_state = (''/ca.pem'', ''smtps://mail.example.com'', 587, ''user'', ''pw'')"
proof -
  have n: "\<not> args_valid (Some ''/ca.pem'') (Some ''mail.example.com'') 70000 (Some ''user'') (Some ''pw'')"
    by (simp add: args_valid_def)
  have p: "(587::uint) \<le> 65535" by simp
  have i: "reachable initial_state \<and> \<not> is_curl_initialized initial_state"
    using reachable.start by (simp add: initial_state_def)
  note w1 = config_validation [where ca = "Some ''/ca.pem''" and url = "Some ''mail.example.com''"
      and port = 70000 and user = "Some ''user''" and pw = "Some ''pw''" and s = running_state
      and env = scenario_init_env and port' = 587 and ca' = "''/ca.pem''"
      and host = "''mail.example.com''" and username = "''user''" and password = "''pw''"]
  note w2 = config_validation [where ca = "Some ''/ca.pem''" and url = "Some ''mail.example.com''"
      and port = 70000 and user = "Some ''user''" and pw = "Some ''pw''" and s = initial_state
      and env = scenario_init_env and port' = 587 and ca' = "''/ca.pem''"
      and host = "''mail.example.com''" and username = "''user''" and password = "''pw''"]
  have 1: "fst (smtp_reconfig (Some ''/ca.pem'') (Some ''mail.example.com'') 70000 (Some ''user'')
            (Some ''pw'') running_state) = False
   \<and> config_of (snd (smtp_reconfig (Some ''/ca.pem'') (Some ''mail.example.com'') 70000
                      (Some ''user'') (Some ''pw'') running_state))
       = config_of running_state"
    using w1 n by blast
  have 2: "config_of (snd (smtp_reconfig (Some ''/ca.pem'') (Some ''mail.example.com'') 587
                      (Some ''user'') (Some ''pw'') initial_state))
       = (''/ca.pem'', snprintf 512 (''smtps://'' @ ''mail.example.com''), uint (587::uint), ''user'', ''pw'')"
    using w2 p by blast
  have 3: "config_of running_state = (''/ca.pem'', ''smtps://mail.example.com'', 587, ''user'', ''pw'')"
    by (simp add: running_state_eq config_of_def)
  show ?thesis
    using n 1 2 3 p i scenario_init by (simp add: snprintf_def)
qed


text \<open>
  C8. In every reachable state \<^verbatim>\<open>smtp_cleanup\<close> does nothing while the initialization flag
  is false, so a second call after a first is a no-op. While the flag is true it clears
  the flag, then joins the poller thread, then releases the multiplexer of each of the
  two slots in order, then releases the transport layer's global context. The join
  comes after the store for a reason: joined with the flag still set, the poller would
  never return.
\<close>

theorem smtp_cleanup_order:
  assumes "reachable s"
  shows "(\<not> is_curl_initialized s \<longrightarrow> smtp_cleanup env s = Inr s)
   \<and> (is_curl_initialized s \<longrightarrow>
        (\<exists>s' h0 h1. map fst (handles_and_mutexes s) = [h0, h1]
           \<and> smtp_cleanup env s = Inr s'
           \<and> calls s' = calls s @ [Store_is_curl_initialized False, Thread_join,
                                   Curl_multi_cleanup h0, Curl_multi_cleanup h1,
                                   Curl_global_cleanup]
           \<and> \<not> is_curl_initialized s' \<and> \<not> smtp_thread s' \<and> \<not> curl_global s'
           \<and> (\<forall>a. multi_handles s' a = (if h0 = Some a \<or> h1 = Some a then None else multi_handles s a))
           \<and> smtp_cleanup env s' = Inr s'
           \<and> thread_join env s = Inl Never_returns))"
proof -
  have idle: "\<not> is_curl_initialized s \<longrightarrow> smtp_cleanup env s = Inr s"
    by (simp add: smtp_cleanup_def)
  have running: "\<exists>s' h0 h1. map fst (handles_and_mutexes s) = [h0, h1]
           \<and> smtp_cleanup env s = Inr s'
           \<and> calls s' = calls s @ [Store_is_curl_initialized False, Thread_join,
                                   Curl_multi_cleanup h0, Curl_multi_cleanup h1,
                                   Curl_global_cleanup]
           \<and> \<not> is_curl_initialized s' \<and> \<not> smtp_thread s' \<and> \<not> curl_global s'
           \<and> (\<forall>a. multi_handles s' a = (if h0 = Some a \<or> h1 = Some a then None else multi_handles s a))
           \<and> smtp_cleanup env s' = Inr s'
           \<and> thread_join env s = Inl Never_returns"
    if f: "is_curl_initialized s"
  proof -
    note inv = reachable_inv [OF assms]
    have t: "smtp_thread s"
      using inv f by (simp add: state_inv_def)
    obtain h0 h1 where h: "handles_and_mutexes s = [(h0, False), (h1, False)]"
      using state_inv_slots [OF inv] by blast
    define s1 where "s1 = record_call (Store_is_curl_initialized False) (s\<lparr>is_curl_initialized := False\<rparr>)"
    have f1: "\<not> is_curl_initialized s1" and t1: "smtp_thread s1"
      using t by (simp_all add: s1_def record_call_def)
    define s2 where "s2 = record_call Thread_join (s1\<lparr>smtp_thread := False\<rparr>)"
    have j: "thread_join env s1 = Inr s2"
      using t1 by (simp add: thread_join_def smtp_consumer_stopped [OF f1] s2_def)
    have h2: "handles_and_mutexes s2 = [(h0, False), (h1, False)]"
      using h by (simp add: s2_def s1_def record_call_def)
    define s' where "s' = curl_global_cleanup (curl_multi_cleanup h1 (curl_multi_cleanup h0 s2))"
    have r: "smtp_cleanup env s = Inr s'"
      using f j h2 by (simp add: smtp_cleanup_def s1_def [symmetric] s'_def)
    have c: "calls s' = calls s @ [Store_is_curl_initialized False, Thread_join,
                                   Curl_multi_cleanup h0, Curl_multi_cleanup h1,
                                   Curl_global_cleanup]"
      by (simp add: s'_def s2_def s1_def curl_global_cleanup_def curl_multi_cleanup_def
            record_call_def split: option.splits)
    have fl: "\<not> is_curl_initialized s'" "\<not> smtp_thread s'" "\<not> curl_global s'"
      by (simp_all add: s'_def s2_def s1_def curl_global_cleanup_def curl_multi_cleanup_def
            record_call_def split: option.splits)
    have m: "multi_handles s' a = (if h0 = Some a \<or> h1 = Some a then None else multi_handles s a)" for a
      by (auto simp: s'_def s2_def s1_def curl_global_cleanup_def curl_multi_cleanup_def
            record_call_def split: option.splits)
    have again: "smtp_cleanup env s' = Inr s'"
      using fl(1) by (simp add: smtp_cleanup_def)
    have blocks: "thread_join env s = Inl Never_returns"
      using thread_join_blocks [OF f t] .
    have hs: "map fst (handles_and_mutexes s) = [h0, h1]"
      by (simp add: h)
    show ?thesis
      by (intro exI [of _ s'] exI [of _ h0] exI [of _ h1] conjI allI)
         (rule hs r c fl m again blocks)+
  qed
  show ?thesis
  proof (intro conjI impI)
    assume "\<not> is_curl_initialized s"
    with idle show "smtp_cleanup env s = Inr s" by simp
  next
    assume "is_curl_initialized s"
    then show "\<exists>s' h0 h1. map fst (handles_and_mutexes s) = [h0, h1]
           \<and> smtp_cleanup env s = Inr s'
           \<and> calls s' = calls s @ [Store_is_curl_initialized False, Thread_join,
                                   Curl_multi_cleanup h0, Curl_multi_cleanup h1,
                                   Curl_global_cleanup]
           \<and> \<not> is_curl_initialized s' \<and> \<not> smtp_thread s' \<and> \<not> curl_global s'
           \<and> (\<forall>a. multi_handles s' a = (if h0 = Some a \<or> h1 = Some a then None else multi_handles s a))
           \<and> smtp_cleanup env s' = Inr s'
           \<and> thread_join env s = Inl Never_returns"
      by (rule running)
  qed
qed

theorem smtp_cleanup_order_witness:
  "reachable initial_state \<and> \<not> is_curl_initialized initial_state
   \<and> smtp_cleanup idle_poller initial_state = Inr initial_state
   \<and> reachable running_state \<and> is_curl_initialized running_state
   \<and> map fst (handles_and_mutexes running_state) = [Some 100, Some 101]
   \<and> (case smtp_cleanup idle_poller running_state of
         Inr s' \<Rightarrow>
           calls s' = [Curl_multi_init, Curl_multi_init, Curl_global_init, Thread_start,
                       Store_is_curl_initialized True,
                       Store_is_curl_initialized False, Thread_join,
                       Curl_multi_cleanup (Some 100), Curl_multi_cleanup (Some 101),
                       Curl_global_cleanup]
           \<and> \<not> is_curl_initialized s' \<and> multi_handles s' 100 = None \<and> multi_handles s' 101 = None
           \<and> smtp_cleanup idle_poller s' = Inr s'
       | Inl e \<Rightarrow> False)"
proof -
  have r0: "reachable initial_state"
    by (rule reachable.start)
  have r1: "reachable running_state"
    by (rule reachable.init [OF r0 scenario_init])
  have i: "\<not> is_curl_initialized initial_state"
    by (simp add: initial_state_def)
  have r: "is_curl_initialized running_state"
    "map fst (handles_and_mutexes running_state) = [Some 100, Some 101]"
    by (simp_all add: running_state_eq)
  have c: "calls running_state = [Curl_multi_init, Curl_multi_init, Curl_global_init, Thread_start,
                       Store_is_curl_initialized True]"
    by (simp add: running_state_eq)
  note w1 = smtp_cleanup_order [OF r0, of idle_poller]
  note w2 = smtp_cleanup_order [OF r1, of idle_poller]
  have 1: "smtp_cleanup idle_poller initial_state = Inr initial_state"
    using w1 i by blast
  obtain s' h0 h1 where 2: "smtp_cleanup idle_poller running_state = Inr s'"
    and h: "map fst (handles_and_mutexes running_state) = [h0, h1]"
    and 3: "calls s' = calls running_state @ [Store_is_curl_initialized False, Thread_join,
                                   Curl_multi_cleanup h0, Curl_multi_cleanup h1,
                                   Curl_global_cleanup]"
    and 4: "\<not> is_curl_initialized s'"
    and 5: "\<forall>a. multi_handles s' a = (if h0 = Some a \<or> h1 = Some a then None else multi_handles running_state a)"
    and 6: "smtp_cleanup idle_poller s' = Inr s'"
    using conjunct2 [OF w2, THEN mp, OF r(1)] by (elim exE conjE) (rule that)
  have hh: "h0 = Some 100" "h1 = Some 101"
    using h r(2) by simp_all
  show ?thesis
    using r0 r1 i 1 r 2 3 4 5 6 by (simp add: c hh)
qed

end
